theory Spec2Isabelle
  imports Complex_Main
begin

section \<open>Values\<close>

text \<open>
  The executor works on the values that \<^verbatim>\<open>encoding/json\<close> decodes into
  \<^verbatim>\<open>interface{}\<close>: nil, bool, float64, string, \<^verbatim>\<open>[]interface{}\<close> and
  \<^verbatim>\<open>map[string]interface{}\<close>. A float64 decoded from JSON is finite, so it is a
  rational number. An object is an association list read with \<open>map_of\<close>.
\<close>

datatype json =
    JNull
  | JBool bool
  | JNumber rat
  | JString string
  | JArray "json list"
  | JObject "(string \<times> json) list"

text \<open>The run-time panics of the Go code that the model keeps as values.\<close>

datatype panic =
    TypeAssertionPanic
  | UncomparablePanic
  | SliceBoundsPanic
  | ReporterPanic

text \<open>
  What \<^verbatim>\<open>gjson.Get\<close> returns: the zero \<^verbatim>\<open>Result\<close> (nothing found) is \<open>Missing\<close>;
  a found value keeps its JSON type, so an explicit \<^verbatim>\<open>null\<close> is \<open>Found JNull\<close>: its
  \<^verbatim>\<open>Raw\<close> text is \<^verbatim>\<open>null\<close>.
\<close>

datatype Result = Missing | Found json

text \<open>
  Text renderings and conversions that the code calls in the standard library and in
  gjson, and that this repository does not define:
  \<^item> \<open>fmt_v\<close>: the \<^verbatim>\<open>%v\<close> verb of \<^verbatim>\<open>fmt.Sprintf\<close> on a decoded value;
  \<^item> \<open>number_text\<close>: the text gjson's \<^verbatim>\<open>String()\<close> gives for a number;
  \<^item> \<open>marshal\<close>: the text \<^verbatim>\<open>json.Marshal\<close> gives for a value (also the raw text
    gjson holds for an object or an array);
  \<^item> \<open>int_out_of_range\<close>: what \<^verbatim>\<open>int(f)\<close> yields for a float64 outside the range of
    \<^verbatim>\<open>int\<close>, which Go leaves to the implementation;
  \<^item> \<open>gjson_other\<close>: what \<^verbatim>\<open>gjson.Get\<close> returns for a path that uses more of the
    library's path syntax than keys and indexes separated by dots (the document is
    \<open>None\<close> when the text handed over is empty).
\<close>

record runtime =
  fmt_v :: "json \<Rightarrow> string"
  number_text :: "rat \<Rightarrow> string"
  marshal :: "json \<Rightarrow> string"
  int_out_of_range :: "rat \<Rightarrow> int"
  gjson_other :: "json option \<Rightarrow> string \<Rightarrow> Result"

definition truncate_rat :: "rat \<Rightarrow> int" where
  "truncate_rat f = (if 0 \<le> f then \<lfloor>f\<rfloor> else \<lceil>f\<rceil>)"

text \<open>\<^verbatim>\<open>int(f)\<close> for a float64 \<open>f\<close>: the fraction is discarded (truncation towards zero).\<close>

definition go_int :: "runtime \<Rightarrow> rat \<Rightarrow> int" where
  "go_int rt f =
     (if - (2 ^ 63) \<le> truncate_rat f \<and> truncate_rat f < 2 ^ 63 then truncate_rat f
      else int_out_of_range rt f)"

subsection \<open>Decimal text of integers (the \<^verbatim>\<open>%d\<close> verb)\<close>

definition digit_char :: "nat \<Rightarrow> char" where
  "digit_char d = ''0123456789'' ! d"

function show_nat :: "nat \<Rightarrow> string" where
  "show_nat n = (if n < 10 then [digit_char n] else show_nat (n div 10) @ [digit_char (n mod 10)])"
  by pat_completeness auto
termination
  by (relation "measure id") auto

declare show_nat.simps [simp del]

definition show_int :: "int \<Rightarrow> string" where
  "show_int i = (if i < 0 then CHR ''-'' # show_nat (nat (- i)) else show_nat (nat i))"

section \<open>Looking a path up (gjson)\<close>

text \<open>
  \<^verbatim>\<open>gjson.Get(json, path)\<close> is a function of the gjson library; the code hands it the
  marshalled value and a path. On a plain path, made of object keys and array indexes
  separated by dots, the library walks down the value: a key is looked up in an object, a
  run of digits is an index into an array. Every other path (wildcards, queries, modifiers,
  multipaths, escapes, an empty component) is left to \<open>gjson_other\<close>.
\<close>

fun split_dots :: "string \<Rightarrow> string list" where
  "split_dots [] = [[]]"
| "split_dots (c # cs) =
     (if c = CHR ''.'' then [] # split_dots cs
      else (case split_dots cs of [] \<Rightarrow> [[c]] | w # ws \<Rightarrow> (c # w) # ws))"

definition is_digit :: "char \<Rightarrow> bool" where
  "is_digit c = (48 \<le> (of_char c :: nat) \<and> (of_char c :: nat) \<le> 57)"

text \<open>gjson's \<^verbatim>\<open>parseUint\<close>: a non-empty run of decimal digits.\<close>

fun parse_digits :: "nat \<Rightarrow> string \<Rightarrow> nat option" where
  "parse_digits n [] = Some n"
| "parse_digits n (c # cs) =
     (if is_digit c then parse_digits (n * 10 + (of_char c - 48)) cs else None)"

definition parseUint :: "string \<Rightarrow> nat option" where
  "parseUint s = (if s = [] then None else parse_digits 0 s)"

fun gjson_walk :: "json \<Rightarrow> string list \<Rightarrow> Result" where
  "gjson_walk v [] = Found v"
| "gjson_walk (JObject kvs) (k # ks) =
     (case map_of kvs k of None \<Rightarrow> Missing | Some v \<Rightarrow> gjson_walk v ks)"
| "gjson_walk (JArray xs) (k # ks) =
     (case parseUint k of
        None \<Rightarrow> Missing
      | Some i \<Rightarrow> if i < length xs then gjson_walk (xs ! i) ks else Missing)"
| "gjson_walk v (k # ks) = Missing"

text \<open>
  A plain component is a non-empty run of ASCII letters, digits, \<^verbatim>\<open>_\<close> and \<^verbatim>\<open>-\<close>; a
  component of digits alone has at most 18 of them, so that the index is below the range of
  the library's integers.
\<close>

definition plain_char :: "char \<Rightarrow> bool" where
  "plain_char c =
     (let n = (of_char c :: nat)
      in (48 \<le> n \<and> n \<le> 57) \<or> (65 \<le> n \<and> n \<le> 90) \<or> (97 \<le> n \<and> n \<le> 122) \<or>
         c = CHR ''_'' \<or> c = CHR ''-'')"

definition plain_component :: "string \<Rightarrow> bool" where
  "plain_component k =
     (k \<noteq> [] \<and> list_all plain_char k \<and> (if list_all is_digit k then length k \<le> 18 else True))"

definition plain_path :: "string \<Rightarrow> bool" where
  "plain_path path = list_all plain_component (split_dots path)"

definition gjson_Get :: "runtime \<Rightarrow> json option \<Rightarrow> string \<Rightarrow> Result" where
  "gjson_Get rt doc path =
     (if plain_path path then
        (case doc of None \<Rightarrow> Missing | Some v \<Rightarrow> gjson_walk v (split_dots path))
      else gjson_other rt doc path)"

text \<open>\<^verbatim>\<open>Result.Exists\<close>: \<^verbatim>\<open>t.Type != Null || len(t.Raw) != 0\<close>.\<close>

fun Exists :: "Result \<Rightarrow> bool" where
  "Exists Missing = False"
| "Exists (Found v) = True"

text \<open>\<^verbatim>\<open>Result.Value\<close>: the decoded value, nil when nothing was found.\<close>

fun Value :: "Result \<Rightarrow> json" where
  "Value Missing = JNull"
| "Value (Found v) = v"

text \<open>\<^verbatim>\<open>Result.String\<close>.\<close>

fun String :: "runtime \<Rightarrow> Result \<Rightarrow> string" where
  "String rt Missing = []"
| "String rt (Found JNull) = []"
| "String rt (Found (JBool b)) = (if b then ''true'' else ''false'')"
| "String rt (Found (JNumber n)) = number_text rt n"
| "String rt (Found (JString s)) = s"
| "String rt (Found (JArray xs)) = marshal rt (JArray xs)"
| "String rt (Found (JObject kvs)) = marshal rt (JObject kvs)"

text \<open>
  \<^verbatim>\<open>a == b\<close> on two \<^verbatim>\<open>interface{}\<close> values: false when the dynamic types differ,
  a panic when both are slices or both are maps, the comparison of the values otherwise.
\<close>

fun iface_eq :: "json \<Rightarrow> json \<Rightarrow> panic + bool" where
  "iface_eq (JArray xs) (JArray ys) = Inl UncomparablePanic"
| "iface_eq (JObject xs) (JObject ys) = Inl UncomparablePanic"
| "iface_eq a b = Inr (a = b)"

section \<open>The response\<close>

text \<open>
  What \<^verbatim>\<open>req.Expect()\<close> hands back, as far as the code reads it: the status code, the
  header map and the decoded JSON body (\<^verbatim>\<open>resp.JSON().Raw()\<close>).
\<close>

record Response =
  StatusCode :: int
  Header :: "(string \<times> string list) list"
  body :: json

text \<open>
  The map with the keys \<^verbatim>\<open>status_code\<close>, \<^verbatim>\<open>headers\<close> and \<^verbatim>\<open>body\<close> that the code
  marshals for gjson; \<^verbatim>\<open>json.Marshal\<close> writes the keys of a map in sorted order.
\<close>

definition header_json :: "(string \<times> string list) list \<Rightarrow> json" where
  "header_json h = JObject (map (\<lambda>(k, vs). (k, JArray (map JString vs))) h)"

definition responseData :: "Response \<Rightarrow> json" where
  "responseData resp =
     JObject [(''body'', body resp),
              (''headers'', header_json (Header resp)),
              (''status_code'', JNumber (of_int (StatusCode resp)))]"

section \<open>The assertion evaluator\<close>

record AssertionResult =
  Type :: string
  Path :: string
  Matcher :: string
  Expected :: json
  Actual :: json
  Passed :: bool
  Message :: string

text \<open>\<^verbatim>\<open>strings.ReplaceAll\<close> for a one-character pattern.\<close>

definition replace_char :: "char \<Rightarrow> string \<Rightarrow> string \<Rightarrow> string" where
  "replace_char c new s = concat (map (\<lambda>x. if x = c then new else [x]) s)"

text \<open>
  The path rewrite of the \<^verbatim>\<open>exists\<close> and \<^verbatim>\<open>equals\<close> branches (the same lines in
  both): a path that starts with \<^verbatim>\<open>[\<close> has every \<^verbatim>\<open>[\<close> replaced by a dot, every
  \<^verbatim>\<open>]\<close> removed and \<^verbatim>\<open>body\<close> put in front; any other path is used as it is.
\<close>

definition dotPath :: "string \<Rightarrow> string" where
  "dotPath path = replace_char CHR '']'' [] (replace_char CHR ''['' ''.'' path)"

definition fullPath :: "string \<Rightarrow> string" where
  "fullPath path =
     (if length path > 0 \<and> hd path = CHR ''['' then ''body'' @ dotPath path else path)"






text \<open>A type assertion \<^verbatim>\<open>assertion[k].(string)\<close> and \<^verbatim>\<open>assertion[k].(float64)\<close> with \<^verbatim>\<open>ok\<close>.\<close>

definition get_string :: "(string \<times> json) list \<Rightarrow> string \<Rightarrow> string option" where
  "get_string m k = (case map_of m k of Some (JString s) \<Rightarrow> Some s | _ \<Rightarrow> None)"

definition get_float64 :: "(string \<times> json) list \<Rightarrow> string \<Rightarrow> rat option" where
  "get_float64 m k = (case map_of m k of Some (JNumber n) \<Rightarrow> Some n | _ \<Rightarrow> None)"

text \<open>An assertion map with one key taken out.\<close>

definition without_key :: "string \<Rightarrow> (string \<times> json) list \<Rightarrow> (string \<times> json) list" where
  "without_key k m = filter (\<lambda>kv. fst kv \<noteq> k) m"

definition new_result :: "string \<Rightarrow> AssertionResult" where
  "new_result t =
     \<lparr>Type = t, Path = [], Matcher = [], Expected = JNull, Actual = JNull,
      Passed = True, Message = []\<rparr>"

definition status_code_assertion ::
  "runtime \<Rightarrow> Response \<Rightarrow> (string \<times> json) list \<Rightarrow> AssertionResult \<Rightarrow> AssertionResult" where
  "status_code_assertion rt resp assertion result =
     (case get_float64 assertion ''value'' of
        None \<Rightarrow> result
      | Some expected \<Rightarrow>
          (let actual = StatusCode resp;
               e = go_int rt expected;
               passed = (actual = e \<or> (e = 200 \<and> actual = 201))
           in result\<lparr>Expected := JNumber (of_int e), Actual := JNumber (of_int actual),
                     Passed := passed,
                     Message := (if passed then Message result
                                 else ''Expected status code '' @ show_int e @ '', got '' @
                                      show_int actual)\<rparr>))"

definition exists_assertion ::
  "runtime \<Rightarrow> Response \<Rightarrow> (string \<times> json) list \<Rightarrow> AssertionResult \<Rightarrow> AssertionResult"
  where
  "exists_assertion rt resp assertion result =
     (case get_string assertion ''path'' of
        None \<Rightarrow> result
      | Some path \<Rightarrow>
          (let p = fullPath path;
               v = gjson_Get rt (Some (responseData resp)) p;
               passed = Exists v
           in result\<lparr>Path := p, Matcher := ''exists'', Passed := passed,
                     Message := (if passed then Message result
                                 else ''JSON path '' @ [CHR 0x27] @ p @ [CHR 0x27] @
                                      '' does not exist'')\<rparr>))"

definition equals_assertion ::
  "runtime \<Rightarrow> Response \<Rightarrow> (string \<times> json) list \<Rightarrow> AssertionResult \<Rightarrow>
   panic + AssertionResult" where
  "equals_assertion rt resp assertion result =
     (case get_string assertion ''path'' of
        None \<Rightarrow> Inr result
      | Some path \<Rightarrow>
          (let p = fullPath path;
               v = gjson_Get rt (Some (responseData resp)) p;
               result1 = result\<lparr>Path := p, Matcher := ''equals''\<rparr>
           in case map_of assertion ''value'' of
                None \<Rightarrow> Inr result1
              | Some expected \<Rightarrow>
                  (case iface_eq (Value v) expected of
                     Inl e \<Rightarrow> Inl e
                   | Inr passed \<Rightarrow>
                       Inr (result1\<lparr>Expected := expected, Actual := Value v, Passed := passed,
                              Message := (if passed then Message result1
                                else ''Expected '' @ [CHR 0x27] @ fmt_v rt expected @
                                     [CHR 0x27] @ '', got '' @ [CHR 0x27] @
                                     fmt_v rt (Value v) @ [CHR 0x27] @ '' for path '' @
                                     [CHR 0x27] @ p @ [CHR 0x27])\<rparr>))))"

text \<open>
  The \<^verbatim>\<open>json_path\<close> branch reads the body alone; a nil body gives gjson the empty
  text.
\<close>

definition body_Get :: "runtime \<Rightarrow> Response \<Rightarrow> string \<Rightarrow> Result" where
  "body_Get rt resp path =
     gjson_Get rt (if body resp = JNull then None else Some (body resp)) path"

definition json_path_assertion ::
  "runtime \<Rightarrow> Response \<Rightarrow> (string \<times> json) list \<Rightarrow> AssertionResult \<Rightarrow>
   panic + AssertionResult" where
  "json_path_assertion rt resp assertion result =
     (case get_string assertion ''path'' of
        None \<Rightarrow> Inr result
      | Some path \<Rightarrow>
          (case get_string assertion ''matcher'' of
             None \<Rightarrow> Inl TypeAssertionPanic
           | Some matcher \<Rightarrow>
               (let v = body_Get rt resp path;
                    result1 = result\<lparr>Path := path, Matcher := matcher\<rparr>
                in if matcher = ''exists'' then
                     Inr (result1\<lparr>Passed := Exists v,
                            Message := (if Exists v then Message result1
                              else ''JSON path '' @ [CHR 0x27] @ path @ [CHR 0x27] @
                                   '' does not exist'')\<rparr>)
                   else if matcher = ''equals'' then
                     (case map_of assertion ''expected'' of
                        None \<Rightarrow> Inr result1
                      | Some expected \<Rightarrow>
                          (case iface_eq (Value v) expected of
                             Inl e \<Rightarrow> Inl e
                           | Inr passed \<Rightarrow>
                               Inr (result1\<lparr>Expected := expected, Actual := Value v,
                                      Passed := passed,
                                      Message := (if passed then Message result1
                                        else ''Expected '' @ [CHR 0x27] @ fmt_v rt expected @
                                             [CHR 0x27] @ '', got '' @ [CHR 0x27] @
                                             fmt_v rt (Value v) @ [CHR 0x27])\<rparr>)))
                   else if matcher = ''contains'' then
                     (case get_string assertion ''expected'' of
                        None \<Rightarrow> Inr result1
                      | Some expected \<Rightarrow>
                          (let passed = (String rt v = expected)
                           in Inr (result1\<lparr>Expected := JString expected,
                                     Actual := JString (String rt v), Passed := passed,
                                     Message := (if passed then Message result1
                                       else ''Expected to contain '' @ [CHR 0x27] @ expected @
                                            [CHR 0x27] @ '', got '' @ [CHR 0x27] @
                                            String rt v @ [CHR 0x27])\<rparr>)))
                   else Inr result1)))"

definition response_time_assertion ::
  "runtime \<Rightarrow> (string \<times> json) list \<Rightarrow> AssertionResult \<Rightarrow> AssertionResult" where
  "response_time_assertion rt assertion result =
     (case get_float64 assertion ''expected'' of
        None \<Rightarrow> result
      | Some expected \<Rightarrow>
          result\<lparr>Expected := JNumber (of_int (go_int rt expected)),
                 Message := ''Response time assertion not implemented yet'',
                 Passed := True\<rparr>)"

text \<open>
  \<^verbatim>\<open>executeAssertion\<close>. The first line, \<^verbatim>\<open>assertion["type"].(string)\<close>, panics when
  the key is missing or not a string. Writes to the debug log are left out.
\<close>

definition executeAssertion ::
  "runtime \<Rightarrow> Response \<Rightarrow> (string \<times> json) list \<Rightarrow> panic + AssertionResult" where
  "executeAssertion rt resp assertion =
     (case get_string assertion ''type'' of
        None \<Rightarrow> Inl TypeAssertionPanic
      | Some t \<Rightarrow>
          (let result = new_result t
           in if t = ''status_code'' then Inr (status_code_assertion rt resp assertion result)
              else if t = ''exists'' then Inr (exists_assertion rt resp assertion result)
              else if t = ''equals'' then equals_assertion rt resp assertion result
              else if t = ''json_path'' then json_path_assertion rt resp assertion result
              else if t = ''response_time'' then Inr (response_time_assertion rt assertion result)
              else Inr (result\<lparr>Passed := False,
                          Message := ''Unknown assertion type: '' @ t\<rparr>)))"

section \<open>The test specification\<close>

text \<open>
  \<^verbatim>\<open>models.TestSpec\<close> with its request and assertions. A nil map and a nil slice are
  \<open>None\<close>: a specification decoded from JSON has a nil \<^verbatim>\<open>Assertions\<close> slice when
  the key is absent or null, and an empty one for \<^verbatim>\<open>[]\<close>. The body and the expected
  values are JSON values, as in every decoded specification; for a specification that
  holds a value which \<^verbatim>\<open>json.Marshal\<close> rejects, \<^verbatim>\<open>ExecuteTest\<close> returns a failed
  result before any request is made, which is left out.
\<close>

record AssertionSpec =
  spec_Type :: string
  spec_Path :: string
  spec_Matcher :: string
  spec_Expected :: json

record RequestSpec =
  req_Method :: string
  req_URL :: string
  req_Headers :: "(string \<times> string) list option"
  req_Body :: json

record TestSpec =
  Name :: string
  Description :: string
  ServiceName :: string
  Request :: RequestSpec
  Assertions :: "AssertionSpec list option"

text \<open>
  \<^verbatim>\<open>ExecuteTest\<close> marshals the specification and decodes the text into a map. The
  struct tags give the keys; \<^verbatim>\<open>path\<close> and \<^verbatim>\<open>matcher\<close> are \<^verbatim>\<open>omitempty\<close>.
\<close>

definition assertion_fields :: "AssertionSpec \<Rightarrow> (string \<times> json) list" where
  "assertion_fields a =
     [(''type'', JString (spec_Type a))] @
     (if spec_Path a = [] then [] else [(''path'', JString (spec_Path a))]) @
     (if spec_Matcher a = [] then [] else [(''matcher'', JString (spec_Matcher a))]) @
     [(''expected'', spec_Expected a)]"

definition request_fields :: "RequestSpec \<Rightarrow> (string \<times> json) list" where
  "request_fields r =
     [(''method'', JString (req_Method r)),
      (''url'', JString (req_URL r)),
      (''headers'', (case req_Headers r of
                       None \<Rightarrow> JNull
                     | Some h \<Rightarrow> JObject (map (\<lambda>(k, v). (k, JString v)) h))),
      (''body'', req_Body r)]"

definition testSpec_fields :: "TestSpec \<Rightarrow> (string \<times> json) list" where
  "testSpec_fields t =
     [(''name'', JString (Name t)),
      (''description'', JString (Description t)),
      (''service_name'', JString (ServiceName t)),
      (''request'', JObject (request_fields (Request t))),
      (''assertions'', (case Assertions t of
                          None \<Rightarrow> JNull
                        | Some as \<Rightarrow> JArray (map (\<lambda>a. JObject (assertion_fields a)) as)))]"

section \<open>The test executor\<close>

text \<open>The start time and the duration of \<^verbatim>\<open>TestResult\<close> are wall-clock readings and are left out.\<close>

record TestResult =
  TestName :: string
  Status :: string
  ErrorMessage :: string
  ResponseData :: string
  AssertionResults :: "AssertionResult list"

text \<open>The assertions that the loop passes over: a path of \<^verbatim>\<open>headers.Content-Type\<close> or \<^verbatim>\<open>headers\<close>.\<close>

definition header_assertion :: "(string \<times> json) list \<Rightarrow> bool" where
  "header_assertion assertion =
     (case get_string assertion ''path'' of
        None \<Rightarrow> False
      | Some path \<Rightarrow> path = ''headers.Content-Type'' \<or> path = ''headers'')"

definition record_assertion :: "AssertionResult \<Rightarrow> TestResult \<Rightarrow> TestResult" where
  "record_assertion ar result =
     (let result1 = result\<lparr>AssertionResults := AssertionResults result @ [ar]\<rparr>
      in if Passed ar then result1
         else result1\<lparr>Status := ''FAILED'', ErrorMessage := Message ar\<rparr>)"

text \<open>The loop over the assertions; an element that is not a map is passed over.\<close>

fun run_assertions :: "runtime \<Rightarrow> Response \<Rightarrow> json list \<Rightarrow> TestResult \<Rightarrow> panic + TestResult" where
  "run_assertions rt resp [] result = Inr result"
| "run_assertions rt resp (JObject assertion # rest) result =
     (if header_assertion assertion then run_assertions rt resp rest result
      else (case executeAssertion rt resp assertion of
              Inl p \<Rightarrow> Inl p
            | Inr ar \<Rightarrow> run_assertions rt resp rest (record_assertion ar result)))"
| "run_assertions rt resp (x # rest) result = run_assertions rt resp rest result"

text \<open>The assertions that the loop evaluates, in order: the maps that are not passed over.\<close>

fun evaluated :: "json list \<Rightarrow> (string \<times> json) list list" where
  "evaluated [] = []"
| "evaluated (JObject a # rest) = (if header_assertion a then evaluated rest else a # evaluated rest)"
| "evaluated (x # rest) = evaluated rest"

text \<open>
  The type assertions made while the request is built: \<^verbatim>\<open>method\<close> and \<^verbatim>\<open>url\<close> must
  be strings, and so must every value of a \<^verbatim>\<open>headers\<close> map.
\<close>

definition is_JString :: "json \<Rightarrow> bool" where
  "is_JString v = (case v of JString s \<Rightarrow> True | _ \<Rightarrow> False)"

definition request_panics :: "(string \<times> json) list \<Rightarrow> bool" where
  "request_panics requestData =
     (get_string requestData ''method'' = None \<or>
      get_string requestData ''url'' = None \<or>
      (case map_of requestData ''headers'' of
         Some (JObject hs) \<Rightarrow> \<not> list_all (\<lambda>(k, v). is_JString v) hs
       | _ \<Rightarrow> False))"

text \<open>
  \<^verbatim>\<open>ExecuteTest\<close> from the decoded map on, for a request that receives the response
  \<open>resp\<close>, given with its body decoded. What becomes of a request that gets no response,
  or a response whose body cannot be decoded, is in \<open>ExecuteTest_reply\<close> below.
\<close>

definition ExecuteTest_data ::
  "runtime \<Rightarrow> string \<Rightarrow> (string \<times> json) list \<Rightarrow> Response \<Rightarrow> panic + TestResult" where
  "ExecuteTest_data rt name testSpecData resp =
     (let result = \<lparr>TestName = name, Status = ''PASSED'', ErrorMessage = [],
                     ResponseData = [], AssertionResults = []\<rparr>
      in case map_of testSpecData ''request'' of
           Some (JObject requestData) \<Rightarrow>
             if request_panics requestData then Inl TypeAssertionPanic
             else if StatusCode resp \<ge> 400 then
               Inr (result\<lparr>Status := ''FAILED'',
                      ErrorMessage := ''HTTP request failed with status '' @
                                      show_int (StatusCode resp)\<rparr>)
             else
               (let responseBytes = marshal rt (responseData resp);
                    result1 = result\<lparr>ResponseData :=
                                (if length responseBytes > 0 then responseBytes else ''{}'')\<rparr>
                in case map_of testSpecData ''assertions'' of
                     Some (JArray assertions) \<Rightarrow> run_assertions rt resp assertions result1
                   | _ \<Rightarrow> Inr (result1\<lparr>Status := ''FAILED'',
                                 ErrorMessage := ''No assertions found''\<rparr>))
         | _ \<Rightarrow> Inr (result\<lparr>Status := ''FAILED'',
                       ErrorMessage := ''Invalid request specification''\<rparr>))"

definition ExecuteTest :: "runtime \<Rightarrow> TestSpec \<Rightarrow> Response \<Rightarrow> panic + TestResult" where
  "ExecuteTest rt testSpec resp =
     ExecuteTest_data rt (Name testSpec) (testSpec_fields testSpec) resp"

text \<open>
  What the request comes to: no response at all (the request cannot be built or sent, or
  the transport fails), or a response with its status, its headers and its body; the body
  is \<open>None\<close> when \<^verbatim>\<open>resp.JSON()\<close> cannot decode it (a body that is not JSON, an empty
  body, a content type other than JSON).
\<close>

datatype reply = NoReply | Reply int "(string \<times> string list) list" "json option"

text \<open>
  \<^verbatim>\<open>ExecuteTest\<close> from the call on. The executor is built with
  \<^verbatim>\<open>httpexpect.NewAssertReporter(nil)\<close>: a failure that httpexpect reports (no response at
  \<^verbatim>\<open>req.Expect()\<close>, a body that \<^verbatim>\<open>resp.JSON()\<close> cannot decode) is written to a nil
  testing handle, which panics. The status check stands before the first
  \<^verbatim>\<open>resp.JSON()\<close>, so the body of a response with status 400 or above is never decoded.
\<close>

definition ExecuteTest_reply :: "runtime \<Rightarrow> TestSpec \<Rightarrow> reply \<Rightarrow> panic + TestResult" where
  "ExecuteTest_reply rt testSpec rep =
     (case rep of
        NoReply \<Rightarrow> Inl ReporterPanic
      | Reply code hdr b \<Rightarrow>
          if code \<ge> 400 then
            ExecuteTest rt testSpec \<lparr>StatusCode = code, Header = hdr, body = JNull\<rparr>
          else
            (case b of
               None \<Rightarrow> Inl ReporterPanic
             | Some v \<Rightarrow> ExecuteTest rt testSpec \<lparr>StatusCode = code, Header = hdr, body = v\<rparr>))"

section \<open>The run orchestrator\<close>

text \<open>
  A stored test case, as far as \<^verbatim>\<open>executeTests\<close> reads it. The text of the
  specification is given by what \<^verbatim>\<open>json.Unmarshal\<close> makes of it: an error message, or
  the decoded specification.
\<close>

record TestCase =
  ID :: string
  TestSpec_decoded :: "string + TestSpec"

text \<open>The row of the run (\<^verbatim>\<open>models.TestRun\<close>) and the rows of the results, without the times.\<close>

record TestRun =
  run_Status :: string
  TotalTests :: int
  PassedTests :: int
  FailedTests :: int

record StoredResult =
  TestCaseID :: string
  stored_Status :: string
  stored_ErrorMessage :: string
  stored_ResponseData :: string

record store =
  run :: TestRun
  test_results :: "StoredResult list"

definition recordTestResult :: "string \<Rightarrow> string \<Rightarrow> string \<Rightarrow> string \<Rightarrow> store \<Rightarrow> store" where
  "recordTestResult testCaseID status errorMessage response db =
     db\<lparr>test_results := test_results db @
          [\<lparr>TestCaseID = testCaseID, stored_Status = status,
            stored_ErrorMessage = errorMessage,
            stored_ResponseData = (if response = [] then ''{}'' else response)\<rparr>]\<rparr>"

record counters =
  passedTests :: int
  failedTests :: int

text \<open>
  The loop of \<^verbatim>\<open>executeTests\<close>. Every test case comes with the response that its
  request receives, given with its body decoded (a request without such a response makes
  the executor panic, see \<open>ExecuteTest_reply\<close>, and is not part of a batch that runs without
  a panic). A panic leaves the loop with the rows written so far.
\<close>

fun execute_loop ::
  "runtime \<Rightarrow> (TestCase \<times> Response) list \<Rightarrow> counters \<Rightarrow> store \<Rightarrow> panic option \<times> counters \<times> store"
  where
  "execute_loop rt [] n db = (None, n, db)"
| "execute_loop rt ((testCase, resp) # rest) n db =
     (case TestSpec_decoded testCase of
        Inl err \<Rightarrow>
          execute_loop rt rest (n\<lparr>failedTests := failedTests n + 1\<rparr>)
            (recordTestResult (ID testCase) ''failed'' err [] db)
      | Inr testSpec \<Rightarrow>
          (case ExecuteTest rt testSpec resp of
             Inl p \<Rightarrow> (Some p, n, db)
           | Inr result \<Rightarrow>
               if Status result = ''FAILED'' then
                 execute_loop rt rest (n\<lparr>failedTests := failedTests n + 1\<rparr>)
                   (recordTestResult (ID testCase) ''failed'' (ErrorMessage result)
                      (ResponseData result) db)
               else
                 execute_loop rt rest (n\<lparr>passedTests := passedTests n + 1\<rparr>)
                   (recordTestResult (ID testCase) ''passed'' (ErrorMessage result)
                      (ResponseData result) db)))"

definition finish_run :: "string \<Rightarrow> int \<Rightarrow> int \<Rightarrow> store \<Rightarrow> store" where
  "finish_run status passed failed db =
     db\<lparr>run := (run db)\<lparr>run_Status := status, PassedTests := passed, FailedTests := failed\<rparr>\<rparr>"

text \<open>\<^verbatim>\<open>executeTests\<close>, with its recovery from a panic.\<close>

definition executeTests :: "runtime \<Rightarrow> (TestCase \<times> Response) list \<Rightarrow> store \<Rightarrow> store" where
  "executeTests rt testCases db =
     (if length testCases = 0 then finish_run ''failed'' 0 0 db
      else (case execute_loop rt testCases \<lparr>passedTests = 0, failedTests = 0\<rparr> db of
              (Some p, n, db1) \<Rightarrow> finish_run ''failed'' 0 0 db1
            | (None, n, db1) \<Rightarrow>
                finish_run (if failedTests n > 0 then ''failed'' else ''completed'')
                  (passedTests n) (failedTests n) db1))"

text \<open>
  \<^verbatim>\<open>StartTestRun\<close>: the run is created as \<^verbatim>\<open>running\<close>, the number of test cases is
  saved, and the batch runs. The value is the store once the batch has finished within the
  time limit; the race with the five-minute timer is not modelled.
\<close>

definition StartTestRun :: "runtime \<Rightarrow> (TestCase \<times> Response) list \<Rightarrow> store" where
  "StartTestRun rt testCases =
     executeTests rt testCases
       \<lparr>run = \<lparr>run_Status = ''running'', TotalTests = int (length testCases),
               PassedTests = 0, FailedTests = 0\<rparr>,
        test_results = []\<rparr>"

text \<open>How a test case of a batch ends: in a panic, passed, or failed; and whether its text could be decoded.\<close>

definition test_panics :: "runtime \<Rightarrow> TestCase \<times> Response \<Rightarrow> bool" where
  "test_panics rt c =
     (case TestSpec_decoded (fst c) of
        Inl err \<Rightarrow> False
      | Inr testSpec \<Rightarrow> isl (ExecuteTest rt testSpec (snd c)))"

definition test_passes :: "runtime \<Rightarrow> TestCase \<times> Response \<Rightarrow> bool" where
  "test_passes rt c =
     (case TestSpec_decoded (fst c) of
        Inl err \<Rightarrow> False
      | Inr testSpec \<Rightarrow>
          (case ExecuteTest rt testSpec (snd c) of
             Inl p \<Rightarrow> False
           | Inr result \<Rightarrow> Status result \<noteq> ''FAILED''))"

definition test_fails :: "runtime \<Rightarrow> TestCase \<times> Response \<Rightarrow> bool" where
  "test_fails rt c =
     (case TestSpec_decoded (fst c) of
        Inl err \<Rightarrow> True
      | Inr testSpec \<Rightarrow>
          (case ExecuteTest rt testSpec (snd c) of
             Inl p \<Rightarrow> False
           | Inr result \<Rightarrow> Status result = ''FAILED''))"

definition unparseable :: "TestCase \<times> Response \<Rightarrow> bool" where
  "unparseable c = isl (TestSpec_decoded (fst c))"

section \<open>The command parser\<close>

text \<open>
  Strings are byte strings, as in Go. \<^verbatim>\<open>strings.Fields\<close> and \<^verbatim>\<open>strings.TrimSpace\<close>
  take white space as \<^verbatim>\<open>unicode.IsSpace\<close> defines it; the list holds the UTF-8
  encoding of each such character.
\<close>

definition unicode_spaces :: "string list" where
  "unicode_spaces =
     [[CHR 0x09], [CHR 0x0A], [CHR 0x0B], [CHR 0x0C], [CHR 0x0D], [CHR 0x20],
      [CHR 0xC2, CHR 0x85], [CHR 0xC2, CHR 0xA0], [CHR 0xE1, CHR 0x9A, CHR 0x80],
      [CHR 0xE2, CHR 0x80, CHR 0x80], [CHR 0xE2, CHR 0x80, CHR 0x81],
      [CHR 0xE2, CHR 0x80, CHR 0x82], [CHR 0xE2, CHR 0x80, CHR 0x83],
      [CHR 0xE2, CHR 0x80, CHR 0x84], [CHR 0xE2, CHR 0x80, CHR 0x85],
      [CHR 0xE2, CHR 0x80, CHR 0x86], [CHR 0xE2, CHR 0x80, CHR 0x87],
      [CHR 0xE2, CHR 0x80, CHR 0x88], [CHR 0xE2, CHR 0x80, CHR 0x89],
      [CHR 0xE2, CHR 0x80, CHR 0x8A], [CHR 0xE2, CHR 0x80, CHR 0xA8],
      [CHR 0xE2, CHR 0x80, CHR 0xA9], [CHR 0xE2, CHR 0x80, CHR 0xAF],
      [CHR 0xE2, CHR 0x81, CHR 0x9F], [CHR 0xE3, CHR 0x80, CHR 0x80]]"

definition HasPrefix :: "string \<Rightarrow> string \<Rightarrow> bool" where
  "HasPrefix s p = (take (length p) s = p)"

definition HasSuffix :: "string \<Rightarrow> string \<Rightarrow> bool" where
  "HasSuffix s p = (length p \<le> length s \<and> drop (length s - length p) s = p)"

fun Contains :: "string \<Rightarrow> string \<Rightarrow> bool" where
  "Contains [] sub = (sub = [])"
| "Contains (c # cs) sub = (HasPrefix (c # cs) sub \<or> Contains cs sub)"

text \<open>The number of bytes of the white space character at the head or the end of a string, 0 when there is none.\<close>

definition space_prefix :: "string \<Rightarrow> nat" where
  "space_prefix s = (case filter (HasPrefix s) unicode_spaces of [] \<Rightarrow> 0 | p # ps \<Rightarrow> length p)"

definition space_suffix :: "string \<Rightarrow> nat" where
  "space_suffix s = (case filter (HasSuffix s) unicode_spaces of [] \<Rightarrow> 0 | p # ps \<Rightarrow> length p)"

function trim_left :: "string \<Rightarrow> string" where
  "trim_left s = (if space_prefix s = 0 \<or> s = [] then s else trim_left (drop (space_prefix s) s))"
  by pat_completeness auto
termination
  by (relation "measure length") auto

function trim_right :: "string \<Rightarrow> string" where
  "trim_right s =
     (if space_suffix s = 0 \<or> s = [] then s else trim_right (take (length s - space_suffix s) s))"
  by pat_completeness auto
termination
  by (relation "measure length") auto

declare trim_left.simps [simp del] trim_right.simps [simp del]

definition TrimSpace :: "string \<Rightarrow> string" where
  "TrimSpace s = trim_right (trim_left s)"

text \<open>\<^verbatim>\<open>strings.Fields\<close>: the words between runs of white space; \<open>w\<close> is the word being read.\<close>

function fields_from :: "string \<Rightarrow> string \<Rightarrow> string list" where
  "fields_from w [] = (if w = [] then [] else [w])"
| "fields_from w (c # cs) =
     (if space_prefix (c # cs) = 0 then fields_from (w @ [c]) cs
      else (if w = [] then [] else [w]) @ fields_from [] (drop (space_prefix (c # cs)) (c # cs)))"
  by pat_completeness auto
termination
  by (relation "measure (\<lambda>(w, s). length s)") auto

definition Fields :: "string \<Rightarrow> string list" where
  "Fields s = fields_from [] s"

fun Join :: "string list \<Rightarrow> string \<Rightarrow> string" where
  "Join [] sep = []"
| "Join [w] sep = w"
| "Join (w # ws) sep = w @ sep @ Join ws sep"

text \<open>The first step: a backslash before a line feed becomes a space, every other backslash goes, white space is collapsed.\<close>

fun join_continuations :: "string \<Rightarrow> string" where
  "join_continuations (a # b # cs) =
     (if a = CHR 0x5C \<and> b = CHR 0x0A then CHR '' '' # join_continuations cs
      else a # join_continuations (b # cs))"
| "join_continuations cs = cs"

definition normalize_command :: "string \<Rightarrow> string" where
  "normalize_command curlCmd =
     Join (Fields (filter (\<lambda>c. c \<noteq> CHR 0x5C) (join_continuations curlCmd))) '' ''"

text \<open>
  The tokens: all matches of the regular expression
  \<^verbatim>\<open>'[^']*'|"[^"]*"|\S+\<close>, found from left to right, the earlier alternative first.
  \<^verbatim>\<open>\S\<close> is any character but tab, line feed, form feed, carriage return and space.
\<close>

definition regex_space :: "char \<Rightarrow> bool" where
  "regex_space c = (c \<in> set [CHR 0x09, CHR 0x0A, CHR 0x0C, CHR 0x0D, CHR 0x20])"

function tokenize :: "string \<Rightarrow> string list" where
  "tokenize [] = []"
| "tokenize (c # cs) =
     (if c = CHR 0x27 \<and> CHR 0x27 \<in> set cs then
        (c # takeWhile (\<lambda>x. x \<noteq> CHR 0x27) cs @ [CHR 0x27]) #
        tokenize (tl (dropWhile (\<lambda>x. x \<noteq> CHR 0x27) cs))
      else if c = CHR 0x22 \<and> CHR 0x22 \<in> set cs then
        (c # takeWhile (\<lambda>x. x \<noteq> CHR 0x22) cs @ [CHR 0x22]) #
        tokenize (tl (dropWhile (\<lambda>x. x \<noteq> CHR 0x22) cs))
      else if regex_space c then tokenize cs
      else (c # takeWhile (\<lambda>x. \<not> regex_space x) cs) #
           tokenize (dropWhile (\<lambda>x. \<not> regex_space x) cs))"
  by pat_completeness auto
termination
  by (relation "measure length")
     (auto simp: length_dropWhile_le less_Suc_eq_le intro: le_trans [OF diff_le_self])

declare tokenize.simps [simp del]

text \<open>
  \<^verbatim>\<open>stripQuotes\<close>. A string that is one quote character alone has the quote both as
  prefix and as suffix, and \<^verbatim>\<open>s[1 : len(s)-1]\<close> is then \<^verbatim>\<open>s[1:0]\<close>, which panics.
\<close>

definition stripQuotes :: "string \<Rightarrow> panic + string" where
  "stripQuotes s0 =
     (let s = TrimSpace s0
      in if (HasPrefix s [CHR 0x27] \<and> HasSuffix s [CHR 0x27]) \<or>
            (HasPrefix s [CHR 0x22] \<and> HasSuffix s [CHR 0x22])
         then (if 1 \<le> length s - 1 then Inr (take (length s - 2) (drop 1 s))
               else Inl SliceBoundsPanic)
         else Inr s)"

text \<open>
  \<^verbatim>\<open>strings.ToUpper\<close> and \<^verbatim>\<open>strings.ToLower\<close>, on ASCII letters; the library also maps
  letters outside ASCII, which the model leaves as they are.
\<close>

definition upper_char :: "char \<Rightarrow> char" where
  "upper_char c =
     (if 97 \<le> (of_char c :: nat) \<and> (of_char c :: nat) \<le> 122 then char_of (of_char c - 32 :: nat)
      else c)"

definition lower_char :: "char \<Rightarrow> char" where
  "lower_char c =
     (if 65 \<le> (of_char c :: nat) \<and> (of_char c :: nat) \<le> 90 then char_of (of_char c + 32 :: nat)
      else c)"

definition ToUpper :: "string \<Rightarrow> string" where
  "ToUpper s = map upper_char s"

definition ToLower :: "string \<Rightarrow> string" where
  "ToLower s = map lower_char s"

text \<open>\<^verbatim>\<open>strings.SplitN(s, sep, 2)\<close> for a one-character separator, when it yields two parts.\<close>

definition split_first :: "char \<Rightarrow> string \<Rightarrow> (string \<times> string) option" where
  "split_first c s =
     (if c \<in> set s then Some (takeWhile (\<lambda>x. x \<noteq> c) s, tl (dropWhile (\<lambda>x. x \<noteq> c) s))
      else None)"

text \<open>A Go map with string keys, as an association list: a store replaces the value of a key that is there.\<close>

fun store_key :: "string \<Rightarrow> string \<Rightarrow> (string \<times> string) list \<Rightarrow> (string \<times> string) list" where
  "store_key k v [] = [(k, v)]"
| "store_key k v ((k', v') # m) = (if k = k' then (k, v) # m else (k', v') # store_key k v m)"

record CurlRequest =
  Method :: string
  URL :: string
  Headers :: "(string \<times> string) list"
  Body :: string
  QueryParams :: "(string \<times> string) list"
  PathVariables :: "(string \<times> string) list"
  RequestType :: string
  RawCommand :: string

datatype parse_error =
    EmptyCommand
  | InvalidCommand
  | MissingMethod
  | MissingHeader
  | InvalidHeader string
  | MissingData
  | MissingForm
  | MissingCredentials
  | MissingCookie
  | NoURLFound
  | InvalidURL string

text \<open>What a call of the parser comes to: a panic, an error, or the parsed request.\<close>

datatype 'a outcome = Panics panic | Error parse_error | Ok 'a

definition method_flag :: "string \<Rightarrow> bool" where
  "method_flag t = (t = ''-X'' \<or> t = ''--request'')"

definition header_flag :: "string \<Rightarrow> bool" where
  "header_flag t = (t = ''-H'' \<or> t = ''--header'')"

definition data_flag :: "string \<Rightarrow> bool" where
  "data_flag t = (t = ''--data'' \<or> t = ''--data-raw'' \<or> t = ''--data-binary'' \<or> t = ''-d'')"

definition form_flag :: "string \<Rightarrow> bool" where
  "form_flag t = (t = ''--form'' \<or> t = ''-F'')"

definition user_flag :: "string \<Rightarrow> bool" where
  "user_flag t = (t = ''--user'' \<or> t = ''-u'')"

definition cookie_flag :: "string \<Rightarrow> bool" where
  "cookie_flag t = (t = ''--cookie'' \<or> t = ''-b'')"

definition ignored_flag :: "string \<Rightarrow> bool" where
  "ignored_flag t =
     (t = ''--location'' \<or> t = ''-L'' \<or> t = ''--compressed'' \<or> t = ''-C'' \<or>
      t = ''--insecure'' \<or> t = ''-k'' \<or> t = ''--silent'' \<or> t = ''-s'' \<or>
      t = ''--verbose'' \<or> t = ''-v'')"

definition post_if_get :: "CurlRequest \<Rightarrow> CurlRequest" where
  "post_if_get result = (if Method result = ''GET'' then result\<lparr>Method := ''POST''\<rparr> else result)"

text \<open>The \<^verbatim>\<open>default\<close> case of the switch: the token is taken as the URL when it looks like one.\<close>

definition url_token :: "string \<Rightarrow> CurlRequest \<Rightarrow> CurlRequest" where
  "url_token token result =
     (if HasPrefix token ''http://'' \<or> HasPrefix token ''https://'' then result\<lparr>URL := token\<rparr>
      else if HasPrefix token ''localhost:'' \<or> HasPrefix token ''127.0.0.1:''
      then result\<lparr>URL := ''http://'' @ token\<rparr>
      else result)"

text \<open>The argument of a flag: the next token with its quotes stripped, or the flag's error when there is none.\<close>

definition flag_argument :: "parse_error \<Rightarrow> string list \<Rightarrow> (string \<times> string list) outcome" where
  "flag_argument err ts =
     (case ts of
        [] \<Rightarrow> Error err
      | a # rest \<Rightarrow> (case stripQuotes a of Inl p \<Rightarrow> Panics p | Inr v \<Rightarrow> Ok (v, rest)))"

text \<open>One round of the loop over the tokens: the request after it and the tokens left.\<close>

definition token_step ::
  "string \<Rightarrow> string list \<Rightarrow> CurlRequest \<Rightarrow> (CurlRequest \<times> string list) outcome" where
  "token_step t ts result =
     (case stripQuotes t of
        Inl p \<Rightarrow> Panics p
      | Inr token \<Rightarrow>
          if token = ''curl'' then Ok (result, ts)
          else if method_flag token then
            (case flag_argument MissingMethod ts of
               Panics p \<Rightarrow> Panics p
             | Error e \<Rightarrow> Error e
             | Ok (v, rest) \<Rightarrow> Ok (result\<lparr>Method := ToUpper v\<rparr>, rest))
          else if header_flag token then
            (case flag_argument MissingHeader ts of
               Panics p \<Rightarrow> Panics p
             | Error e \<Rightarrow> Error e
             | Ok (header, rest) \<Rightarrow>
                 (case split_first CHR '':'' header of
                    Some (key, val) \<Rightarrow>
                      Ok (result\<lparr>Headers :=
                            store_key (TrimSpace key) (TrimSpace val) (Headers result)\<rparr>, rest)
                  | None \<Rightarrow> Error (InvalidHeader header)))
          else if token = ''--location'' \<or> token = ''-L'' then Ok (result, ts)
          else if data_flag token then
            (case flag_argument MissingData ts of
               Panics p \<Rightarrow> Panics p
             | Error e \<Rightarrow> Error e
             | Ok (v, rest) \<Rightarrow> Ok ((post_if_get result)\<lparr>Body := v\<rparr>, rest))
          else if form_flag token then
            (case flag_argument MissingForm ts of
               Panics p \<Rightarrow> Panics p
             | Error e \<Rightarrow> Error e
             | Ok (formData, rest) \<Rightarrow>
                 (case split_first CHR ''='' formData of
                    Some (k, v) \<Rightarrow>
                      Ok ((post_if_get result)\<lparr>Body :=
                            (if Body result = [] then k @ ''='' @ v
                             else Body result @ ''&'' @ k @ ''='' @ v)\<rparr>, rest)
                  | None \<Rightarrow> Ok (post_if_get result, rest)))
          else if user_flag token then
            (case flag_argument MissingCredentials ts of
               Panics p \<Rightarrow> Panics p
             | Error e \<Rightarrow> Error e
             | Ok (credentials, rest) \<Rightarrow>
                 (case split_first CHR '':'' credentials of
                    Some parts \<Rightarrow>
                      Ok (result\<lparr>Headers :=
                            store_key ''Authorization'' (''Basic '' @ credentials)
                              (Headers result)\<rparr>, rest)
                  | None \<Rightarrow> Ok (result, rest)))
          else if cookie_flag token then
            (case flag_argument MissingCookie ts of
               Panics p \<Rightarrow> Panics p
             | Error e \<Rightarrow> Error e
             | Ok (cookie, rest) \<Rightarrow>
                 Ok (result\<lparr>Headers := store_key ''Cookie'' cookie (Headers result)\<rparr>, rest))
          else if ignored_flag token then Ok (result, ts)
          else Ok (url_token token result, ts))"

lemma flag_argument_shorter:
  "flag_argument err ts = Ok (v, rest) \<Longrightarrow> length rest < Suc (length ts)"
  by (auto simp: flag_argument_def split: list.splits sum.splits)

lemma token_step_shorter:
  "token_step t ts result = Ok (result', rest) \<Longrightarrow> length rest < Suc (length ts)"
  by (auto simp: token_step_def split: sum.splits if_splits outcome.splits option.splits
      dest: flag_argument_shorter)

text \<open>The loop over the tokens.\<close>

function walk :: "string list \<Rightarrow> CurlRequest \<Rightarrow> CurlRequest outcome" where
  "walk [] result = Ok result"
| "walk (t # ts) result =
     (case token_step t ts result of
        Panics p \<Rightarrow> Panics p
      | Error e \<Rightarrow> Error e
      | Ok (result', rest) \<Rightarrow> walk rest result')"
  by pat_completeness auto
termination
  by (relation "measure (\<lambda>(ts, result). length ts)") (auto dest: token_step_shorter)

text \<open>
  The query string. \<^verbatim>\<open>url.Parse\<close> and \<^verbatim>\<open>Query()\<close> belong to the standard library:
  \<open>url_parse\<close> gives, for a URL, either the error text or the URL rebuilt from scheme, host
  and path together with the first value of every query key.
\<close>

definition extract_query ::
  "(string \<Rightarrow> string + string \<times> (string \<times> string) list) \<Rightarrow> CurlRequest \<Rightarrow>
   string + CurlRequest" where
  "extract_query url_parse result =
     (if Contains (URL result) ''?'' then
        (case url_parse (URL result) of
           Inl err \<Rightarrow> Inl err
         | Inr (u, params) \<Rightarrow>
             Inr (result\<lparr>URL := u,
                    QueryParams := fold (\<lambda>(k, v). store_key k v) params (QueryParams result)\<rparr>))
      else Inr result)"

text \<open>
  The names in braces: all matches of \<^verbatim>\<open>\{([^}]+)\}\<close> from left to right. A match
  starts at an opening brace that is followed by at least one character other than a
  closing brace and then by a closing brace.
\<close>

function path_variable_names :: "string \<Rightarrow> string list" where
  "path_variable_names [] = []"
| "path_variable_names (c # cs) =
     (if c = CHR ''{'' \<and> CHR ''}'' \<in> set cs \<and> takeWhile (\<lambda>x. x \<noteq> CHR ''}'') cs \<noteq> [] then
        takeWhile (\<lambda>x. x \<noteq> CHR ''}'') cs #
        path_variable_names (tl (dropWhile (\<lambda>x. x \<noteq> CHR ''}'') cs))
      else path_variable_names cs)"
  by pat_completeness auto
termination
  by (relation "measure length")
     (auto simp: length_dropWhile_le less_Suc_eq_le intro: le_trans [OF diff_le_self])

declare path_variable_names.simps [simp del]

definition classifyRequest :: "CurlRequest \<Rightarrow> string" where
  "classifyRequest req =
     (let urlLower = ToLower (URL req); method = ToUpper (Method req)
      in if Contains urlLower ''/$export'' then ''FHIR Bulk Export''
         else if Contains urlLower ''/fhir/'' \<and> method = ''GET'' then ''FHIR Read''
         else if Contains urlLower ''/fhir/'' \<and> method = ''POST'' then ''FHIR Create/Action''
         else if Contains urlLower ''/fhir/'' \<and> method = ''PUT'' then ''FHIR Update''
         else if Contains urlLower ''/fhir/'' \<and> method = ''DELETE'' then ''FHIR Delete''
         else if method = ''GET'' then ''Fetch''
         else if method = ''POST'' then ''Submit''
         else if method = ''PUT'' then ''Update''
         else if method = ''DELETE'' then ''Delete''
         else if method = ''PATCH'' then ''Patch''
         else ''Other'')"

definition new_request :: "string \<Rightarrow> CurlRequest" where
  "new_request curlCmd =
     \<lparr>Method = ''GET'', URL = [], Headers = [], Body = [], QueryParams = [],
      PathVariables = [], RequestType = [], RawCommand = curlCmd\<rparr>"

text \<open>The steps after the loop: the URL check, the query string, the path variables, the class.\<close>

definition finish_request ::
  "(string \<Rightarrow> string + string \<times> (string \<times> string) list) \<Rightarrow> CurlRequest \<Rightarrow>
   CurlRequest outcome" where
  "finish_request url_parse result =
     (if URL result = [] then Error NoURLFound
      else (case extract_query url_parse result of
              Inl err \<Rightarrow> Error (InvalidURL err)
            | Inr result1 \<Rightarrow>
                (let result2 = result1\<lparr>PathVariables :=
                                 fold (\<lambda>name. store_key name []) (path_variable_names (URL result1))
                                   (PathVariables result1)\<rparr>
                 in Ok (result2\<lparr>RequestType := classifyRequest result2\<rparr>))))"

definition ParseCurlCommand ::
  "(string \<Rightarrow> string + string \<times> (string \<times> string) list) \<Rightarrow> string \<Rightarrow> CurlRequest outcome"
  where
  "ParseCurlCommand url_parse curlCmd =
     (if curlCmd = [] then Error EmptyCommand
      else (let tokens = tokenize (normalize_command curlCmd)
            in if length tokens = 0 then Error InvalidCommand
               else (case walk tokens (new_request curlCmd) of
                       Panics p \<Rightarrow> Panics p
                     | Error e \<Rightarrow> Error e
                     | Ok result \<Rightarrow> finish_request url_parse result)))"

text \<open>
  \<^verbatim>\<open>ToTestSpec\<close>, as the map it returns. \<open>unmarshal\<close> is \<^verbatim>\<open>json.Unmarshal\<close> on the
  body text (\<open>None\<close> when the text is not JSON). The query parameters are joined in the
  order of the list; Go ranges over the map in no fixed order.
\<close>

definition default_assertion :: "(string \<times> json) list" where
  "default_assertion = [(''type'', JString ''status_code''), (''expected'', JNumber 200)]"

definition ToTestSpec ::
  "(string \<Rightarrow> json option) \<Rightarrow> CurlRequest \<Rightarrow> string \<Rightarrow> string \<Rightarrow> (string \<times> json) list" where
  "ToTestSpec unmarshal c name description =
     (let fullURL =
            (if length (QueryParams c) > 0 then
               URL c @ ''?'' @
               Join (map (\<lambda>(k, v). if v \<noteq> [] then k @ ''='' @ v else k) (QueryParams c)) ''&''
             else URL c);
          body = (if Body c \<noteq> [] then
                    (case unmarshal (Body c) of None \<Rightarrow> JString (Body c) | Some v \<Rightarrow> v)
                  else JNull)
      in [(''name'', JString name),
          (''description'', JString description),
          (''service_name'', JString ''curl-service''),
          (''request'', JObject [(''method'', JString (Method c)),
                                 (''url'', JString fullURL),
                                 (''headers'', JObject (map (\<lambda>(k, v). (k, JString v)) (Headers c))),
                                 (''body'', body)]),
          (''assertions'', JArray [JObject default_assertion])])"







section \<open>Properties of the assertion evaluator\<close>

lemma gjson_Get_plain:
  "plain_path path \<Longrightarrow> gjson_Get rt (Some v) path = gjson_walk v (split_dots path)"
  by (simp add: gjson_Get_def)

lemma plain_paths:
  "plain_path ''body.name''" "plain_path ''body.0.name''" "plain_path ''body.0.id''"
  "plain_path ''body.id''" "plain_path ''message''"
  by code_simp+

lemma truncate_rat_of_int: "truncate_rat (of_int n) = n"
  by (simp add: truncate_rat_def)

lemma go_int_of_int: "- (2 ^ 63) \<le> n \<Longrightarrow> n < 2 ^ 63 \<Longrightarrow> go_int rt (of_int n) = n"
  by (simp add: go_int_def truncate_rat_of_int)

lemma go_int_in_range:
  "- (2 ^ 63) \<le> truncate_rat f \<Longrightarrow> truncate_rat f < 2 ^ 63 \<Longrightarrow> go_int rt f = truncate_rat f"
  by (simp add: go_int_def)

lemma truncate_rat_200_half: "truncate_rat (401 / 2) = 200"
  by (simp add: truncate_rat_def floor_eq_iff)

lemma show_int_200: "show_int 200 = ''200''"
  by (simp add: show_int_def show_nat.simps digit_char_def)

lemma show_int_404: "show_int 404 = ''404''"
  by (simp add: show_int_def show_nat.simps digit_char_def)

text \<open>
  The \<^verbatim>\<open>status_code\<close> branch on any numeric \<^verbatim>\<open>value\<close> \<open>e\<close>: the code compares the
  actual status with \<^verbatim>\<open>int(e)\<close>.
\<close>

lemma status_code_compares_with_int:
  assumes "get_string a ''type'' = Some ''status_code''"
    and "get_float64 a ''value'' = Some e"
  shows "\<exists>r. executeAssertion rt resp a = Inr r \<and>
           (Passed r \<longleftrightarrow>
              StatusCode resp = go_int rt e \<or> (go_int rt e = 200 \<and> StatusCode resp = 201)) \<and>
           (if Passed r then Message r = []
            else Message r = ''Expected status code '' @ show_int (go_int rt e) @ '', got '' @
                   show_int (StatusCode resp))"
  using assms
  by (simp add: executeAssertion_def status_code_assertion_def new_result_def Let_def)

text \<open>An expected value with a fraction loses it in the conversion: 200.5 passes against the status 200.\<close>

lemma status_code_fraction_discarded:
  "executeAssertion rt \<lparr>StatusCode = 200, Header = [], body = JNull\<rparr>
     [(''type'', JString ''status_code''), (''value'', JNumber (401 / 2))] =
   Inr \<lparr>Type = ''status_code'', Path = [], Matcher = [], Expected = JNumber 200,
        Actual = JNumber 200, Passed = True, Message = []\<rparr>"
  by (simp add: executeAssertion_def status_code_assertion_def new_result_def Let_def
      get_string_def get_float64_def go_int_def truncate_rat_200_half)

text \<open>
  C1: for every response and every \<^verbatim>\<open>status_code\<close> assertion whose \<^verbatim>\<open>value\<close> is a
  status code \<open>e\<close> (a whole number within the range of \<^verbatim>\<open>int\<close>), the evaluation
  returns a result; it passes if and only if the actual status equals \<open>e\<close>, or \<open>e\<close> is
  200 and the actual status is 201; every other mismatch fails with the message
  \<^verbatim>\<open>Expected status code <e>, got <actual>\<close>, and a passing result has no message.
\<close>

theorem C1_status_code_tolerance:
  assumes "get_string a ''type'' = Some ''status_code''"
    and "get_float64 a ''value'' = Some (of_int e)"
    and "- (2 ^ 63) \<le> e" and "e < 2 ^ 63"
  shows "\<exists>r. executeAssertion rt resp a = Inr r \<and>
           (Passed r \<longleftrightarrow> StatusCode resp = e \<or> (e = 200 \<and> StatusCode resp = 201)) \<and>
           (if Passed r then Message r = []
            else Message r = ''Expected status code '' @ show_int e @ '', got '' @
                   show_int (StatusCode resp))"
proof -
  have g: "go_int rt (of_int e) = e"
    using assms(3,4) by (rule go_int_of_int)
  show ?thesis
    using status_code_compares_with_int [OF assms(1,2), of rt resp] unfolding g .
qed

theorem C1_status_code_tolerance_witness:
  "\<forall>rt. (\<exists>r. executeAssertion rt \<lparr>StatusCode = 404, Header = [], body = JNull\<rparr>
          [(''type'', JString ''status_code''), (''value'', JNumber 200)] = Inr r \<and>
          \<not> Passed r \<and> Message r = ''Expected status code 200, got 404'') \<and>
        (\<exists>r. executeAssertion rt \<lparr>StatusCode = 201, Header = [], body = JNull\<rparr>
          [(''type'', JString ''status_code''), (''value'', JNumber 200)] = Inr r \<and>
          Passed r \<and> Message r = [])"
proof
  fix rt
  let ?a = "[(''type'', JString ''status_code''), (''value'', JNumber 200)]"
  have a: "get_string ?a ''type'' = Some ''status_code''"
    by (simp add: get_string_def)
  have b: "get_float64 ?a ''value'' = Some (of_int 200)"
    by (simp add: get_float64_def)
  have c: "- (2 ^ 63) \<le> (200 :: int)" "(200 :: int) < 2 ^ 63"
    by simp_all
  have fails: "\<exists>r. executeAssertion rt \<lparr>StatusCode = 404, Header = [], body = JNull\<rparr> ?a = Inr r \<and>
          \<not> Passed r \<and> Message r = ''Expected status code 200, got 404''"
    using C1_status_code_tolerance [OF a b c, of rt "\<lparr>StatusCode = 404, Header = [], body = JNull\<rparr>"]
    by (auto simp add: show_int_200 show_int_404)
  have passes: "\<exists>r. executeAssertion rt \<lparr>StatusCode = 201, Header = [], body = JNull\<rparr> ?a = Inr r \<and>
          Passed r \<and> Message r = []"
    using C1_status_code_tolerance [OF a b c, of rt "\<lparr>StatusCode = 201, Header = [], body = JNull\<rparr>"]
    by auto
  from fails passes
  show "(\<exists>r. executeAssertion rt \<lparr>StatusCode = 404, Header = [], body = JNull\<rparr> ?a = Inr r \<and>
          \<not> Passed r \<and> Message r = ''Expected status code 200, got 404'') \<and>
        (\<exists>r. executeAssertion rt \<lparr>StatusCode = 201, Header = [], body = JNull\<rparr> ?a = Inr r \<and>
          Passed r \<and> Message r = [])"
    by (rule conjI)
qed

lemma get_float64_assertion_fields_value: "get_float64 (assertion_fields s) ''value'' = None"
  by (simp add: get_float64_def assertion_fields_def)

lemma map_of_assertion_fields_value: "map_of (assertion_fields s) ''value'' = None"
  by (simp add: assertion_fields_def)

lemma get_string_assertion_fields_type:
  "get_string (assertion_fields s) ''type'' = Some (spec_Type s)"
  by (simp add: get_string_def assertion_fields_def)

lemma map_of_without_key: "k \<noteq> k' \<Longrightarrow> map_of (without_key k' m) k = map_of m k"
  by (induction m) (auto simp: without_key_def)

lemma get_string_without_key: "k \<noteq> k' \<Longrightarrow> get_string (without_key k' m) k = get_string m k"
  by (simp add: get_string_def map_of_without_key)

lemma get_float64_without_key: "k \<noteq> k' \<Longrightarrow> get_float64 (without_key k' m) k = get_float64 m k"
  by (simp add: get_float64_def map_of_without_key)

lemma expected_not_read:
  assumes "get_string a ''type'' = Some ''status_code'' \<or> get_string a ''type'' = Some ''equals''"
  shows "executeAssertion rt resp (without_key ''expected'' a) = executeAssertion rt resp a"
  using assms
  by (auto simp: executeAssertion_def status_code_assertion_def equals_assertion_def
      get_string_without_key get_float64_without_key map_of_without_key Let_def
      cong: option.case_cong if_cong)

lemma value_not_read:
  assumes "get_string a ''type'' = Some ''json_path'' \<or> get_string a ''type'' = Some ''response_time''"
  shows "executeAssertion rt resp (without_key ''value'' a) = executeAssertion rt resp a"
  using assms
  by (auto simp: executeAssertion_def json_path_assertion_def response_time_assertion_def
      get_string_without_key get_float64_without_key map_of_without_key Let_def
      cong: option.case_cong if_cong)

text \<open>
  C2, as stated, at an \<^verbatim>\<open>equals\<close> assertion whose \<^verbatim>\<open>value\<close> is the string \<^verbatim>\<open>x\<close>:
  the map has no numeric \<^verbatim>\<open>value\<close>, yet the code compares and the assertion fails
  against a body whose \<^verbatim>\<open>name\<close> is \<^verbatim>\<open>y\<close>.
\<close>

theorem C2_equals_string_value_counterexample:
  "\<forall>rt. get_float64 [(''type'', JString ''equals''), (''path'', JString ''body.name''),
                      (''value'', JString ''x'')] ''value'' = None \<and>
        (\<exists>r. executeAssertion rt
               \<lparr>StatusCode = 200, Header = [], body = JObject [(''name'', JString ''y'')]\<rparr>
               [(''type'', JString ''equals''), (''path'', JString ''body.name''),
                (''value'', JString ''x'')] = Inr r \<and>
             \<not> Passed r \<and> Expected r = JString ''x'' \<and> Actual r = JString ''y'')"
  by (simp add: executeAssertion_def equals_assertion_def new_result_def Let_def
      get_string_def get_float64_def fullPath_def gjson_Get_plain plain_paths responseData_def)

text \<open>
  C2, amended: the \<^verbatim>\<open>status_code\<close> and \<^verbatim>\<open>equals\<close> branches never read the key
  \<^verbatim>\<open>expected\<close>, and the \<^verbatim>\<open>json_path\<close> and \<^verbatim>\<open>response_time\<close> branches never read
  the key \<^verbatim>\<open>value\<close>. A \<^verbatim>\<open>status_code\<close> assertion map with no numeric \<^verbatim>\<open>value\<close>, and an
  \<^verbatim>\<open>equals\<close> assertion map with no \<^verbatim>\<open>value\<close> key at all, come back passed with
  nothing compared (no expected value, no actual value, no message). This holds for every
  assertion of type \<^verbatim>\<open>status_code\<close> or \<^verbatim>\<open>equals\<close> serialized from the typed
  \<^verbatim>\<open>AssertionSpec\<close>, whose only expected-value key is \<^verbatim>\<open>expected\<close>, and for the
  default assertion that \<^verbatim>\<open>ToTestSpec\<close> generates.
\<close>

theorem C2_no_value_passes:
  "(get_string a ''type'' = Some ''status_code'' \<and> get_float64 a ''value'' = None \<longrightarrow>
      executeAssertion rt resp a = Inr (new_result ''status_code'')) \<and>
   (get_string a ''type'' = Some ''equals'' \<and> map_of a ''value'' = None \<longrightarrow>
      (\<exists>r. executeAssertion rt resp a = Inr r \<and> Passed r \<and> Expected r = JNull \<and>
            Actual r = JNull \<and> Message r = [])) \<and>
   (spec_Type s = ''status_code'' \<or> spec_Type s = ''equals'' \<longrightarrow>
      (\<exists>r. executeAssertion rt resp (assertion_fields s) = Inr r \<and> Passed r \<and>
            Expected r = JNull \<and> Actual r = JNull \<and> Message r = [])) \<and>
   executeAssertion rt resp default_assertion = Inr (new_result ''status_code'') \<and>
   Passed (new_result ''status_code'') \<and>
   (get_string a ''type'' = Some ''status_code'' \<or> get_string a ''type'' = Some ''equals'' \<longrightarrow>
      executeAssertion rt resp (without_key ''expected'' a) = executeAssertion rt resp a) \<and>
   (get_string a ''type'' = Some ''json_path'' \<or>
    get_string a ''type'' = Some ''response_time'' \<longrightarrow>
      executeAssertion rt resp (without_key ''value'' a) = executeAssertion rt resp a)"
proof -
  have sc: "executeAssertion rt resp b = Inr (new_result ''status_code'')"
    if "get_string b ''type'' = Some ''status_code''" "get_float64 b ''value'' = None" for b
    using that by (simp add: executeAssertion_def status_code_assertion_def)
  have eq: "\<exists>r. executeAssertion rt resp b = Inr r \<and> Passed r \<and> Expected r = JNull \<and>
            Actual r = JNull \<and> Message r = []"
    if "get_string b ''type'' = Some ''equals''" "map_of b ''value'' = None" for b
    using that
    by (simp add: executeAssertion_def equals_assertion_def new_result_def Let_def
        split: option.splits)
  have typed: "\<exists>r. executeAssertion rt resp (assertion_fields s) = Inr r \<and> Passed r \<and>
            Expected r = JNull \<and> Actual r = JNull \<and> Message r = []"
    if "spec_Type s = ''status_code'' \<or> spec_Type s = ''equals''"
    using that
  proof
    assume "spec_Type s = ''status_code''"
    then show ?thesis
      using sc [of "assertion_fields s"]
      by (simp add: get_string_assertion_fields_type get_float64_assertion_fields_value
          new_result_def)
  next
    assume "spec_Type s = ''equals''"
    then show ?thesis
      using eq [of "assertion_fields s"]
      by (simp add: get_string_assertion_fields_type map_of_assertion_fields_value)
  qed
  have dflt: "executeAssertion rt resp default_assertion = Inr (new_result ''status_code'')"
    by (rule sc) (simp_all add: default_assertion_def get_string_def get_float64_def)
  show ?thesis
    using sc [of a] eq [of a] typed dflt expected_not_read [of a rt resp]
      value_not_read [of a rt resp]
    by (simp add: new_result_def)
qed

theorem C2_no_value_passes_witness:
  "\<forall>rt. executeAssertion rt \<lparr>StatusCode = 500, Header = [], body = JNull\<rparr>
          [(''type'', JString ''status_code''), (''expected'', JNumber 200)] =
          Inr (new_result ''status_code'') \<and>
        (\<exists>r. executeAssertion rt \<lparr>StatusCode = 500, Header = [], body = JNull\<rparr>
          (assertion_fields \<lparr>spec_Type = ''equals'', spec_Path = ''body.name'', spec_Matcher = [],
             spec_Expected = JString ''x''\<rparr>) = Inr r \<and> Passed r)"
proof
  fix rt
  let ?a = "[(''type'', JString ''status_code''), (''expected'', JNumber 200)]"
  let ?s = "\<lparr>spec_Type = ''equals'', spec_Path = ''body.name'', spec_Matcher = [],
             spec_Expected = JString ''x''\<rparr>"
  let ?resp = "\<lparr>StatusCode = 500, Header = [], body = JNull\<rparr>"
  have a: "get_string ?a ''type'' = Some ''status_code''" "get_float64 ?a ''value'' = None"
    by (simp_all add: get_string_def get_float64_def)
  have s: "spec_Type ?s = ''equals''" by simp
  show "executeAssertion rt ?resp ?a = Inr (new_result ''status_code'') \<and>
        (\<exists>r. executeAssertion rt ?resp (assertion_fields ?s) = Inr r \<and> Passed r)"
    using C2_no_value_passes [of ?a rt ?resp ?s] a s by blast
qed






text \<open>
  C4 at a body \<^verbatim>\<open>{"message": "hello world"}\<close> and the expected string \<^verbatim>\<open>world\<close>: the
  string form of the resolved value contains the expected string, and the code, which
  compares the two strings for equality, fails the assertion with the message
  \<^verbatim>\<open>Expected to contain 'world', got 'hello world'\<close>.
\<close>

theorem C4_contains_compares_for_equality:
  "executeAssertion rt
     \<lparr>StatusCode = 200, Header = [], body = JObject [(''message'', JString ''hello world'')]\<rparr>
     [(''type'', JString ''json_path''), (''path'', JString ''message''),
      (''matcher'', JString ''contains''), (''expected'', JString ''world'')] =
   Inr \<lparr>Type = ''json_path'', Path = ''message'', Matcher = ''contains'',
        Expected = JString ''world'', Actual = JString ''hello world'', Passed = False,
        Message = ''Expected to contain '' @ [CHR 0x27] @ ''world'' @ [CHR 0x27] @ '', got '' @
                  [CHR 0x27] @ ''hello world'' @ [CHR 0x27]\<rparr> \<and>
   Contains ''hello world'' ''world''"
  by (simp add: executeAssertion_def json_path_assertion_def new_result_def Let_def
      get_string_def gjson_Get_plain plain_paths body_Get_def HasPrefix_def)

section \<open>Properties of the path rewrite\<close>



lemma replace_char_Cons:
  "replace_char c new (x # xs) = (if x = c then new else [x]) @ replace_char c new xs"
  by (simp add: replace_char_def)

lemma replace_char_Nil: "replace_char c new [] = []"
  by (simp add: replace_char_def)












section \<open>Properties of the test executor\<close>

lemma Cons_eq_map_Inr:
  "(x # xs = map Inr ars) \<longleftrightarrow> (\<exists>a as. ars = a # as \<and> x = Inr a \<and> xs = map Inr as)"
  by (cases ars) auto

lemma run_assertions_fold:
  "run_assertions rt resp as result = Inr r \<longleftrightarrow>
     (\<exists>ars. map (executeAssertion rt resp) (evaluated as) = map Inr ars \<and>
            r = fold record_assertion ars result)"
proof (induction rt resp as result rule: run_assertions.induct)
  case (1 rt resp result)
  then show ?case by auto
next
  case (2 rt resp assertion rest result)
  show ?case
  proof (cases "header_assertion assertion")
    case True
    with 2(1) show ?thesis by simp
  next
    case False
    show ?thesis
    proof (cases "executeAssertion rt resp assertion")
      case (Inl p)
      with False show ?thesis by (simp add: Cons_eq_map_Inr)
    next
      case (Inr ar)
      have "run_assertions rt resp (JObject assertion # rest) result =
            run_assertions rt resp rest (record_assertion ar result)"
        using False Inr by simp
      moreover have "(\<exists>ars. map (executeAssertion rt resp) (evaluated (JObject assertion # rest)) =
                map Inr ars \<and> r = fold record_assertion ars result) \<longleftrightarrow>
            (\<exists>as. map (executeAssertion rt resp) (evaluated rest) = map Inr as \<and>
                r = fold record_assertion as (record_assertion ar result))"
        using False Inr by (auto simp: Cons_eq_map_Inr)
      ultimately show ?thesis
        using 2(2) [OF False Inr] by simp
    qed
  qed
qed simp_all


lemma fold_record_assertion:
  "AssertionResults (fold record_assertion ars result) = AssertionResults result @ ars \<and>
   Status (fold record_assertion ars result) =
     (if list_all Passed ars then Status result else ''FAILED'') \<and>
   ErrorMessage (fold record_assertion ars result) =
     (if list_all Passed ars then ErrorMessage result
      else Message (last (filter (\<lambda>x. \<not> Passed x) ars)))"
proof (induction ars rule: rev_induct)
  case Nil
  then show ?case by simp
next
  case (snoc ar ars)
  then show ?case
    by (cases "Passed ar") (simp_all add: record_assertion_def Let_def)
qed

lemma all_Inr_map:
  "list_all (\<lambda>a. \<not> isl (f a)) xs \<Longrightarrow> \<exists>ys. map f xs = map Inr ys"
proof (induction xs)
  case Nil
  then show ?case by simp
next
  case (Cons a xs)
  then obtain ys where ys: "map f xs = map Inr ys" by auto
  from Cons.prems obtain y where "f a = Inr y" by (cases "f a") auto
  with ys have "map f (a # xs) = map Inr (y # ys)" by simp
  then show ?case by blast
qed

lemma list_ex_not_Passed: "list_ex (\<lambda>x. \<not> Passed x) ars \<longleftrightarrow> \<not> list_all Passed ars"
  by (simp add: list_ex_iff list_all_iff)


text \<open>
  C5: when the loop over the assertions is reached (the request is well formed, the status
  is below 400, the assertions are a list) and no evaluated assertion panics, the test
  returns a result whose assertion results are those of the evaluated (not passed over)
  assertions in order; its status is \<^verbatim>\<open>FAILED\<close> if and only if one of them failed,
  and then its error message is the message of the last failing one; otherwise the status
  is \<^verbatim>\<open>PASSED\<close> and there is no error message.
\<close>

theorem C5_failed_iff_some_assertion_failed:
  assumes "map_of testSpecData ''request'' = Some (JObject requestData)"
    and "\<not> request_panics requestData"
    and "StatusCode resp < 400"
    and "map_of testSpecData ''assertions'' = Some (JArray assertions)"
    and "list_all (\<lambda>a. \<not> isl (executeAssertion rt resp a)) (evaluated assertions)"
  shows "\<exists>r. ExecuteTest_data rt name testSpecData resp = Inr r \<and>
           map (executeAssertion rt resp) (evaluated assertions) = map Inr (AssertionResults r) \<and>
           (Status r = ''FAILED'' \<longleftrightarrow> list_ex (\<lambda>x. \<not> Passed x) (AssertionResults r)) \<and>
           (if list_ex (\<lambda>x. \<not> Passed x) (AssertionResults r)
            then ErrorMessage r = Message (last (filter (\<lambda>x. \<not> Passed x) (AssertionResults r)))
            else Status r = ''PASSED'' \<and> ErrorMessage r = [])"
proof -
  define result1 where "result1 = \<lparr>TestName = name, Status = ''PASSED'', ErrorMessage = [],
      ResponseData = (if length (marshal rt (responseData resp)) > 0
                      then marshal rt (responseData resp) else ''{}''),
      AssertionResults = []\<rparr>"
  have ex: "ExecuteTest_data rt name testSpecData resp = run_assertions rt resp assertions result1"
    using assms(1-4) by (simp add: ExecuteTest_data_def Let_def result1_def)
  obtain ars where ars: "map (executeAssertion rt resp) (evaluated assertions) = map Inr ars"
    using all_Inr_map [OF assms(5)] by blast
  define r where "r = fold record_assertion ars result1"
  have run: "ExecuteTest_data rt name testSpecData resp = Inr r"
    unfolding ex run_assertions_fold r_def using ars by blast
  have init: "AssertionResults result1 = []" "Status result1 = ''PASSED''" "ErrorMessage result1 = []"
    by (simp_all add: result1_def)
  have res: "AssertionResults r = ars"
    and st: "Status r = (if list_all Passed ars then ''PASSED'' else ''FAILED'')"
    and msg: "ErrorMessage r = (if list_all Passed ars then []
               else Message (last (filter (\<lambda>x. \<not> Passed x) ars)))"
    using fold_record_assertion [of ars result1] by (simp_all add: r_def init)
  have "map (executeAssertion rt resp) (evaluated assertions) = map Inr (AssertionResults r)"
    by (simp add: res ars)
  moreover have "Status r = ''FAILED'' \<longleftrightarrow> list_ex (\<lambda>x. \<not> Passed x) (AssertionResults r)"
    by (simp add: res st list_ex_not_Passed)
  moreover have "if list_ex (\<lambda>x. \<not> Passed x) (AssertionResults r)
      then ErrorMessage r = Message (last (filter (\<lambda>x. \<not> Passed x) (AssertionResults r)))
      else Status r = ''PASSED'' \<and> ErrorMessage r = []"
    by (simp add: res st msg list_ex_not_Passed)
  ultimately show ?thesis
    using run by blast
qed


theorem C5_failed_iff_some_assertion_failed_witness:
  "\<forall>rt name. \<exists>r.
     ExecuteTest_data rt name
       [(''request'', JObject [(''method'', JString ''GET''), (''url'', JString ''/users/1'')]),
        (''assertions'', JArray
           [JObject [(''type'', JString ''status_code''), (''value'', JNumber 404)],
            JObject [(''type'', JString ''exists''), (''path'', JString ''headers'')],
            JObject [(''type'', JString ''exists''), (''path'', JString ''body.id'')],
            JObject [(''type'', JString ''status_code''), (''value'', JNumber 200)]])]
       \<lparr>StatusCode = 200, Header = [], body = JObject [(''name'', JString ''a'')]\<rparr> = Inr r \<and>
     Status r = ''FAILED'' \<and> length (AssertionResults r) = 3 \<and>
     ErrorMessage r = ''JSON path '' @ [CHR 0x27] @ ''body.id'' @ [CHR 0x27] @ '' does not exist''"
proof (intro allI)
  fix rt name
  let ?A1 = "[(''type'', JString ''status_code''), (''value'', JNumber 404)]"
  let ?A2 = "[(''type'', JString ''exists''), (''path'', JString ''headers'')]"
  let ?A3 = "[(''type'', JString ''exists''), (''path'', JString ''body.id'')]"
  let ?A4 = "[(''type'', JString ''status_code''), (''value'', JNumber 200)]"
  let ?as = "[JObject ?A1, JObject ?A2, JObject ?A3, JObject ?A4]"
  let ?rd = "[(''method'', JString ''GET''), (''url'', JString ''/users/1'')]"
  let ?data = "[(''request'', JObject ?rd), (''assertions'', JArray ?as)]"
  let ?resp = "\<lparr>StatusCode = 200, Header = [], body = JObject [(''name'', JString ''a'')]\<rparr>"
  let ?R1 = "\<lparr>Type = ''status_code'', Path = [], Matcher = [], Expected = JNumber 404,
              Actual = JNumber 200, Passed = False,
              Message = ''Expected status code 404, got 200''\<rparr>"
  let ?R3 = "\<lparr>Type = ''exists'', Path = ''body.id'', Matcher = ''exists'', Expected = JNull,
              Actual = JNull, Passed = False,
              Message = ''JSON path '' @ [CHR 0x27] @ ''body.id'' @ [CHR 0x27] @ '' does not exist''\<rparr>"
  let ?R4 = "\<lparr>Type = ''status_code'', Path = [], Matcher = [], Expected = JNumber 200,
              Actual = JNumber 200, Passed = True, Message = []\<rparr>"
  have g: "go_int rt 404 = 404" "go_int rt 200 = 200"
    by (simp_all add: go_int_def truncate_rat_def)
  have e1: "executeAssertion rt ?resp ?A1 = Inr ?R1"
    by (simp add: executeAssertion_def status_code_assertion_def new_result_def Let_def
        get_string_def get_float64_def g show_int_200 show_int_404)
  have e3: "executeAssertion rt ?resp ?A3 = Inr ?R3"
    by (simp add: executeAssertion_def exists_assertion_def new_result_def Let_def
        get_string_def fullPath_def gjson_Get_plain plain_paths responseData_def)
  have e4: "executeAssertion rt ?resp ?A4 = Inr ?R4"
    by (simp add: executeAssertion_def status_code_assertion_def new_result_def Let_def
        get_string_def get_float64_def g)
  have ev: "evaluated ?as = [?A1, ?A3, ?A4]"
    by (simp add: header_assertion_def get_string_def)
  have h1: "map_of ?data ''request'' = Some (JObject ?rd)" by simp
  have h2: "\<not> request_panics ?rd" by (simp add: request_panics_def get_string_def)
  have h3: "StatusCode ?resp < 400" by simp
  have h4: "map_of ?data ''assertions'' = Some (JArray ?as)" by simp
  have h5: "list_all (\<lambda>a. \<not> isl (executeAssertion rt ?resp a)) (evaluated ?as)"
    unfolding ev by (simp add: e1 e3 e4)
  from C5_failed_iff_some_assertion_failed [OF h1 h2 h3 h4 h5, of name]
  obtain r where run: "ExecuteTest_data rt name ?data ?resp = Inr r"
    and res: "map (executeAssertion rt ?resp) (evaluated ?as) = map Inr (AssertionResults r)"
    and st: "Status r = ''FAILED'' \<longleftrightarrow> list_ex (\<lambda>x. \<not> Passed x) (AssertionResults r)"
    and msg: "if list_ex (\<lambda>x. \<not> Passed x) (AssertionResults r)
      then ErrorMessage r = Message (last (filter (\<lambda>x. \<not> Passed x) (AssertionResults r)))
      else Status r = ''PASSED'' \<and> ErrorMessage r = []"
    by blast
  have m: "map (executeAssertion rt ?resp) (evaluated ?as) = map Inr [?R1, ?R3, ?R4]"
    unfolding ev by (simp add: e1 e3 e4)
  have "map Inr [?R1, ?R3, ?R4] = map (Inr :: AssertionResult \<Rightarrow> panic + AssertionResult) (AssertionResults r)"
    by (rule trans [OF m [symmetric] res])
  then have "[?R1, ?R3, ?R4] = AssertionResults r"
    by (simp only: inj_map_eq_map [OF inj_Inr])
  then have rs: "AssertionResults r = [?R1, ?R3, ?R4]"
    by (rule sym)
  have "Status r = ''FAILED''" using st by (simp add: rs)
  moreover have "length (AssertionResults r) = 3" by (simp add: rs)
  moreover have "ErrorMessage r =
      ''JSON path '' @ [CHR 0x27] @ ''body.id'' @ [CHR 0x27] @ '' does not exist''"
    using msg by (simp add: rs)
  ultimately show "\<exists>r. ExecuteTest_data rt name ?data ?resp = Inr r \<and> Status r = ''FAILED'' \<and>
      length (AssertionResults r) = 3 \<and>
      ErrorMessage r = ''JSON path '' @ [CHR 0x27] @ ''body.id'' @ [CHR 0x27] @ '' does not exist''"
    using run by blast
qed


lemma request_fields_no_panic: "\<not> request_panics (request_fields rq)"
proof (cases "req_Headers rq")
  case None
  then show ?thesis
    by (simp add: request_panics_def request_fields_def get_string_def)
next
  case (Some h)
  have "list_all (\<lambda>(k, v). is_JString v) (map (\<lambda>(k, v). (k, JString v)) h)"
    by (induction h) (auto simp: is_JString_def)
  with Some show ?thesis
    by (simp add: request_panics_def request_fields_def get_string_def)
qed

lemma testSpec_fields_request:
  "map_of (testSpec_fields t) ''request'' = Some (JObject (request_fields (Request t)))"
  by (simp add: testSpec_fields_def)

lemma testSpec_fields_assertions:
  "map_of (testSpec_fields t) ''assertions'' =
     Some (case Assertions t of
             None \<Rightarrow> JNull
           | Some as \<Rightarrow> JArray (map (\<lambda>a. JObject (assertion_fields a)) as))"
  by (simp add: testSpec_fields_def)

lemma ExecuteTest_status_400:
  "code \<ge> 400 \<Longrightarrow>
   ExecuteTest rt t \<lparr>StatusCode = code, Header = hdr, body = v\<rparr> =
     Inr \<lparr>TestName = Name t, Status = ''FAILED'',
          ErrorMessage = ''HTTP request failed with status '' @ show_int code,
          ResponseData = [], AssertionResults = []\<rparr>"
  by (simp add: ExecuteTest_def ExecuteTest_data_def Let_def testSpec_fields_request
      request_fields_no_panic)

lemma ExecuteTest_nil_assertions:
  "code < 400 \<Longrightarrow> Assertions t = None \<Longrightarrow>
   ExecuteTest rt t \<lparr>StatusCode = code, Header = hdr, body = v\<rparr> =
     Inr \<lparr>TestName = Name t, Status = ''FAILED'', ErrorMessage = ''No assertions found'',
          ResponseData =
            (if length (marshal rt (responseData \<lparr>StatusCode = code, Header = hdr, body = v\<rparr>)) > 0
             then marshal rt (responseData \<lparr>StatusCode = code, Header = hdr, body = v\<rparr>)
             else ''{}''),
          AssertionResults = []\<rparr>"
  by (simp add: ExecuteTest_def ExecuteTest_data_def Let_def testSpec_fields_request
      testSpec_fields_assertions request_fields_no_panic)

lemma ExecuteTest_empty_assertions:
  "code < 400 \<Longrightarrow> Assertions t = Some [] \<Longrightarrow>
   ExecuteTest rt t \<lparr>StatusCode = code, Header = hdr, body = v\<rparr> =
     Inr \<lparr>TestName = Name t, Status = ''PASSED'', ErrorMessage = [],
          ResponseData =
            (if length (marshal rt (responseData \<lparr>StatusCode = code, Header = hdr, body = v\<rparr>)) > 0
             then marshal rt (responseData \<lparr>StatusCode = code, Header = hdr, body = v\<rparr>)
             else ''{}''),
          AssertionResults = []\<rparr>"
  by (simp add: ExecuteTest_def ExecuteTest_data_def Let_def testSpec_fields_request
      testSpec_fields_assertions request_fields_no_panic)

text \<open>
  Without a response, and with a response below 400 whose body cannot be decoded, the
  executor panics, whatever the assertions are.
\<close>

lemma ExecuteTest_reply_panics:
  "ExecuteTest_reply rt t NoReply = Inl ReporterPanic"
  "code < 400 \<Longrightarrow> ExecuteTest_reply rt t (Reply code hdr None) = Inl ReporterPanic"
  by (simp_all add: ExecuteTest_reply_def)

text \<open>
  C10, as stated, at a specification with a present but empty assertion list and a response
  with status 404: the status check comes before the assertions are looked at, and the
  result is \<^verbatim>\<open>FAILED\<close> with the message \<^verbatim>\<open>HTTP request failed with status 404\<close>.
\<close>

theorem C10_empty_list_status_404_counterexample:
  "\<forall>rt. ExecuteTest_reply rt
          \<lparr>Name = ''t'', Description = [], ServiceName = [],
            Request = \<lparr>req_Method = ''GET'', req_URL = ''/u'', req_Headers = None,
                        req_Body = JNull\<rparr>,
            Assertions = Some []\<rparr>
          (Reply 404 [] (Some (JObject []))) =
        Inr \<lparr>TestName = ''t'', Status = ''FAILED'',
             ErrorMessage = ''HTTP request failed with status 404'', ResponseData = [],
             AssertionResults = []\<rparr>"
  by (simp add: ExecuteTest_reply_def ExecuteTest_status_400 show_int_404)

text \<open>
  C10, amended: when the request receives a response with a status below 400 and a body
  that decodes as JSON, a specification with a nil assertion slice (the key absent or null)
  yields \<^verbatim>\<open>FAILED\<close> with the message \<^verbatim>\<open>No assertions found\<close>, and a specification with
  a present but empty assertion list yields \<^verbatim>\<open>PASSED\<close> with no assertion evaluated.
\<close>

theorem C10_nil_and_empty_assertions:
  assumes "code < 400"
  shows "(Assertions t = None \<longrightarrow>
            ExecuteTest_reply rt t (Reply code hdr (Some v)) =
              Inr \<lparr>TestName = Name t, Status = ''FAILED'', ErrorMessage = ''No assertions found'',
                   ResponseData =
                     (if length (marshal rt (responseData
                           \<lparr>StatusCode = code, Header = hdr, body = v\<rparr>)) > 0
                      then marshal rt (responseData
                           \<lparr>StatusCode = code, Header = hdr, body = v\<rparr>)
                      else ''{}''),
                   AssertionResults = []\<rparr>) \<and>
         (Assertions t = Some [] \<longrightarrow>
            ExecuteTest_reply rt t (Reply code hdr (Some v)) =
              Inr \<lparr>TestName = Name t, Status = ''PASSED'', ErrorMessage = [],
                   ResponseData =
                     (if length (marshal rt (responseData
                           \<lparr>StatusCode = code, Header = hdr, body = v\<rparr>)) > 0
                      then marshal rt (responseData
                           \<lparr>StatusCode = code, Header = hdr, body = v\<rparr>)
                      else ''{}''),
                   AssertionResults = []\<rparr>)"
proof -
  have r: "ExecuteTest_reply rt t (Reply code hdr (Some v)) =
           ExecuteTest rt t \<lparr>StatusCode = code, Header = hdr, body = v\<rparr>"
    using assms by (simp add: ExecuteTest_reply_def)
  show ?thesis
    unfolding r
    using ExecuteTest_nil_assertions [OF assms, of t rt hdr v]
      ExecuteTest_empty_assertions [OF assms, of t rt hdr v]
    by blast
qed

theorem C10_nil_and_empty_assertions_witness:
  "\<forall>rt. ExecuteTest_reply rt
          \<lparr>Name = ''t'', Description = [], ServiceName = [],
            Request = \<lparr>req_Method = ''GET'', req_URL = ''/u'', req_Headers = None,
                        req_Body = JNull\<rparr>,
            Assertions = None\<rparr>
          (Reply 200 [] (Some (JObject []))) =
        Inr \<lparr>TestName = ''t'', Status = ''FAILED'', ErrorMessage = ''No assertions found'',
             ResponseData =
               (if length (marshal rt (responseData
                     \<lparr>StatusCode = 200, Header = [], body = JObject []\<rparr>)) > 0
                then marshal rt (responseData \<lparr>StatusCode = 200, Header = [], body = JObject []\<rparr>)
                else ''{}''),
             AssertionResults = []\<rparr> \<and>
        ExecuteTest_reply rt
          \<lparr>Name = ''t'', Description = [], ServiceName = [],
            Request = \<lparr>req_Method = ''GET'', req_URL = ''/u'', req_Headers = None,
                        req_Body = JNull\<rparr>,
            Assertions = Some []\<rparr>
          (Reply 200 [] (Some (JObject []))) =
        Inr \<lparr>TestName = ''t'', Status = ''PASSED'', ErrorMessage = [],
             ResponseData =
               (if length (marshal rt (responseData
                     \<lparr>StatusCode = 200, Header = [], body = JObject []\<rparr>)) > 0
                then marshal rt (responseData \<lparr>StatusCode = 200, Header = [], body = JObject []\<rparr>)
                else ''{}''),
             AssertionResults = []\<rparr>"
proof
  fix rt :: runtime
  let ?nil = "\<lparr>Name = ''t'', Description = [], ServiceName = [],
            Request = \<lparr>req_Method = ''GET'', req_URL = ''/u'', req_Headers = None,
                        req_Body = JNull\<rparr>,
            Assertions = None\<rparr>"
  let ?empty = "\<lparr>Name = ''t'', Description = [], ServiceName = [],
            Request = \<lparr>req_Method = ''GET'', req_URL = ''/u'', req_Headers = None,
                        req_Body = JNull\<rparr>,
            Assertions = Some []\<rparr>"
  let ?rd = "(if length (marshal rt (responseData
                     \<lparr>StatusCode = 200, Header = [], body = JObject []\<rparr>)) > 0
                then marshal rt (responseData \<lparr>StatusCode = 200, Header = [], body = JObject []\<rparr>)
                else ''{}'')"
  have h: "(200 :: int) < 400" by simp
  have a: "ExecuteTest_reply rt ?nil (Reply 200 [] (Some (JObject []))) =
        Inr \<lparr>TestName = ''t'', Status = ''FAILED'', ErrorMessage = ''No assertions found'',
             ResponseData = ?rd, AssertionResults = []\<rparr>"
    using C10_nil_and_empty_assertions [OF h, of ?nil rt "[]" "JObject []"] by simp
  have b: "ExecuteTest_reply rt ?empty (Reply 200 [] (Some (JObject []))) =
        Inr \<lparr>TestName = ''t'', Status = ''PASSED'', ErrorMessage = [],
             ResponseData = ?rd, AssertionResults = []\<rparr>"
    using C10_nil_and_empty_assertions [OF h, of ?empty rt "[]" "JObject []"] by simp
  from a b
  show "ExecuteTest_reply rt ?nil (Reply 200 [] (Some (JObject []))) =
        Inr \<lparr>TestName = ''t'', Status = ''FAILED'', ErrorMessage = ''No assertions found'',
             ResponseData = ?rd, AssertionResults = []\<rparr> \<and>
        ExecuteTest_reply rt ?empty (Reply 200 [] (Some (JObject []))) =
        Inr \<lparr>TestName = ''t'', Status = ''PASSED'', ErrorMessage = [],
             ResponseData = ?rd, AssertionResults = []\<rparr>"
    by (rule conjI)
qed

section \<open>Properties of the run orchestrator\<close>

lemma run_recordTestResult: "run (recordTestResult i s e r db) = run db"
  by (simp add: recordTestResult_def)

lemma length_recordTestResult:
  "length (test_results (recordTestResult i s e r db)) = Suc (length (test_results db))"
  by (simp add: recordTestResult_def)

lemma execute_loop_counts:
  "list_all (\<lambda>c. \<not> test_panics rt c) cs \<Longrightarrow>
   \<exists>n' db'. execute_loop rt cs n db = (None, n', db') \<and>
     passedTests n' = passedTests n + int (length (filter (test_passes rt) cs)) \<and>
     failedTests n' = failedTests n + int (length (filter (test_fails rt) cs)) \<and>
     run db' = run db \<and>
     length (test_results db') = length (test_results db) + length cs"
proof (induction cs arbitrary: n db)
  case Nil
  then show ?case by simp
next
  case (Cons c cs)
  obtain testCase resp where c: "c = (testCase, resp)" by (cases c)
  from Cons.prems have np: "\<not> test_panics rt (testCase, resp)"
    and rest: "list_all (\<lambda>c. \<not> test_panics rt c) cs"
    by (simp_all add: c)
  show ?case
  proof (cases "TestSpec_decoded testCase")
    case (Inl err)
    let ?n = "n\<lparr>failedTests := failedTests n + 1\<rparr>"
    let ?db = "recordTestResult (ID testCase) ''failed'' err [] db"
    have step: "execute_loop rt (c # cs) n db = execute_loop rt cs ?n ?db"
      by (simp add: c Inl)
    have p: "\<not> test_passes rt c" and f: "test_fails rt c"
      by (simp_all add: c Inl test_passes_def test_fails_def)
    from Cons.IH [OF rest, of ?n ?db] show ?thesis
      unfolding step
      by (simp add: p f run_recordTestResult length_recordTestResult add.assoc)
  next
    case (Inr testSpec)
    from np Inr obtain result where ex: "ExecuteTest rt testSpec resp = Inr result"
      by (cases "ExecuteTest rt testSpec resp") (simp_all add: test_panics_def)
    show ?thesis
    proof (cases "Status result = ''FAILED''")
      case True
      let ?n = "n\<lparr>failedTests := failedTests n + 1\<rparr>"
      let ?db = "recordTestResult (ID testCase) ''failed'' (ErrorMessage result)
                   (ResponseData result) db"
      have step: "execute_loop rt (c # cs) n db = execute_loop rt cs ?n ?db"
        by (simp add: c Inr ex True)
      have p: "\<not> test_passes rt c" and f: "test_fails rt c"
        by (simp_all add: c Inr ex True test_passes_def test_fails_def)
      from Cons.IH [OF rest, of ?n ?db] show ?thesis
        unfolding step
        by (simp add: p f run_recordTestResult length_recordTestResult add.assoc)
    next
      case False
      let ?n = "n\<lparr>passedTests := passedTests n + 1\<rparr>"
      let ?db = "recordTestResult (ID testCase) ''passed'' (ErrorMessage result)
                   (ResponseData result) db"
      have step: "execute_loop rt (c # cs) n db = execute_loop rt cs ?n ?db"
        by (simp add: c Inr ex False)
      have p: "test_passes rt c" and f: "\<not> test_fails rt c"
        by (simp_all add: c Inr ex False test_passes_def test_fails_def)
      from Cons.IH [OF rest, of ?n ?db] show ?thesis
        unfolding step
        by (simp add: p f run_recordTestResult length_recordTestResult add.assoc)
    qed
  qed
qed

lemma passes_or_fails:
  "\<not> test_panics rt c \<Longrightarrow> test_fails rt c \<longleftrightarrow> \<not> test_passes rt c"
  by (auto simp: test_panics_def test_fails_def test_passes_def split: sum.splits)

lemma length_filter_split:
  "list_all (\<lambda>c. \<not> test_panics rt c) cs \<Longrightarrow>
   length (filter (test_passes rt) cs) + length (filter (test_fails rt) cs) = length cs"
  by (induction cs) (auto simp: passes_or_fails)

lemma no_fails_iff:
  "list_all (\<lambda>c. \<not> test_panics rt c) cs \<Longrightarrow>
   length (filter (test_fails rt) cs) = 0 \<longleftrightarrow> list_all (test_passes rt) cs"
  by (induction cs) (auto simp: passes_or_fails)

lemma unparseable_fails: "unparseable c \<Longrightarrow> test_fails rt c"
  by (cases "TestSpec_decoded (fst c)") (simp_all add: unparseable_def test_fails_def)


lemma ExecuteTest_no_assertions_Status:
  "StatusCode resp < 400 \<Longrightarrow> Assertions t = Some [] \<Longrightarrow>
   \<exists>r. ExecuteTest rt t resp = Inr r \<and> Status r = ''PASSED''"
  by (simp add: ExecuteTest_def ExecuteTest_data_def Let_def testSpec_fields_request
      testSpec_fields_assertions request_fields_no_panic)

text \<open>
  C8: when a non-empty batch runs to its end without a panic, the run is \<^verbatim>\<open>completed\<close>
  if every test passed and \<^verbatim>\<open>failed\<close> otherwise; the total is the number of test cases
  supplied, the passed and failed counts are the numbers of test cases that passed and
  that failed, they add up to the total, every test case whose specification could not be
  decoded is among the failed ones, and one result row is written per test case.
\<close>

theorem C8_run_counts_exact:
  assumes "testCases \<noteq> []"
    and "list_all (\<lambda>c. \<not> test_panics rt c) testCases"
  shows "run_Status (run (StartTestRun rt testCases)) =
           (if list_all (test_passes rt) testCases then ''completed'' else ''failed'') \<and>
         TotalTests (run (StartTestRun rt testCases)) = int (length testCases) \<and>
         PassedTests (run (StartTestRun rt testCases)) =
           int (length (filter (test_passes rt) testCases)) \<and>
         FailedTests (run (StartTestRun rt testCases)) =
           int (length (filter (test_fails rt) testCases)) \<and>
         PassedTests (run (StartTestRun rt testCases)) +
           FailedTests (run (StartTestRun rt testCases)) = int (length testCases) \<and>
         int (length (filter unparseable testCases)) \<le>
           FailedTests (run (StartTestRun rt testCases)) \<and>
         length (test_results (StartTestRun rt testCases)) = length testCases"
proof -
  define db0 where "db0 =
    \<lparr>run = \<lparr>run_Status = ''running'', TotalTests = int (length testCases),
             PassedTests = 0, FailedTests = 0\<rparr>,
      test_results = []\<rparr>"
  define n0 where "n0 = \<lparr>passedTests = 0, failedTests = 0\<rparr>"
  obtain n' db' where loop: "execute_loop rt testCases n0 db0 = (None, n', db')"
    and p: "passedTests n' = passedTests n0 + int (length (filter (test_passes rt) testCases))"
    and f: "failedTests n' = failedTests n0 + int (length (filter (test_fails rt) testCases))"
    and r: "run db' = run db0"
    and l: "length (test_results db') = length (test_results db0) + length testCases"
    using execute_loop_counts [OF assms(2), of n0 db0] by blast
  define final where "final = finish_run (if failedTests n' > 0 then ''failed'' else ''completed'')
      (passedTests n') (failedTests n') db'"
  have start: "StartTestRun rt testCases = final"
    using assms(1) loop
    by (simp add: StartTestRun_def executeTests_def final_def db0_def [symmetric]
        n0_def [symmetric])
  have p': "passedTests n' = int (length (filter (test_passes rt) testCases))"
    using p by (simp add: n0_def)
  have f': "failedTests n' = int (length (filter (test_fails rt) testCases))"
    using f by (simp add: n0_def)
  have status: "run_Status (run final) =
        (if list_all (test_passes rt) testCases then ''completed'' else ''failed'')"
    using no_fails_iff [OF assms(2)] by (auto simp: final_def finish_run_def f')
  have total: "TotalTests (run final) = int (length testCases)"
    by (simp add: final_def finish_run_def r db0_def)
  have passed: "PassedTests (run final) = int (length (filter (test_passes rt) testCases))"
    by (simp add: final_def finish_run_def p')
  have failed: "FailedTests (run final) = int (length (filter (test_fails rt) testCases))"
    by (simp add: final_def finish_run_def f')
  have sum: "PassedTests (run final) + FailedTests (run final) = int (length testCases)"
    using length_filter_split [OF assms(2)] unfolding passed failed by linarith
  have "length (filter unparseable testCases) \<le> length (filter (test_fails rt) testCases)"
    by (induction testCases) (auto simp: unparseable_fails)
  then have unp: "int (length (filter unparseable testCases)) \<le> FailedTests (run final)"
    unfolding failed by simp
  have len: "length (test_results final) = length testCases"
    by (simp add: final_def finish_run_def l db0_def)
  show ?thesis
    unfolding start using status total passed failed sum unp len by blast
qed


theorem C8_run_counts_exact_witness:
  "\<forall>rt.
     run (StartTestRun rt
       [(\<lparr>ID = ''1'', TestSpec_decoded = Inr
            \<lparr>Name = ''first'', Description = [], ServiceName = [],
              Request = \<lparr>req_Method = ''GET'', req_URL = ''/u'', req_Headers = None,
                          req_Body = JNull\<rparr>,
              Assertions = Some []\<rparr>\<rparr>,
         \<lparr>StatusCode = 200, Header = [], body = JNull\<rparr>),
        (\<lparr>ID = ''2'', TestSpec_decoded = Inl ''unexpected end of JSON input''\<rparr>,
         \<lparr>StatusCode = 200, Header = [], body = JNull\<rparr>),
        (\<lparr>ID = ''3'', TestSpec_decoded = Inr
            \<lparr>Name = ''third'', Description = [], ServiceName = [],
              Request = \<lparr>req_Method = ''GET'', req_URL = ''/u'', req_Headers = None,
                          req_Body = JNull\<rparr>,
              Assertions = Some []\<rparr>\<rparr>,
         \<lparr>StatusCode = 201, Header = [], body = JNull\<rparr>)]) =
     \<lparr>run_Status = ''failed'', TotalTests = 3, PassedTests = 2, FailedTests = 1\<rparr>"
proof
  fix rt
  let ?s1 = "\<lparr>Name = ''first'', Description = [], ServiceName = [],
              Request = \<lparr>req_Method = ''GET'', req_URL = ''/u'', req_Headers = None,
                          req_Body = JNull\<rparr>,
              Assertions = Some []\<rparr>"
  let ?s3 = "\<lparr>Name = ''third'', Description = [], ServiceName = [],
              Request = \<lparr>req_Method = ''GET'', req_URL = ''/u'', req_Headers = None,
                          req_Body = JNull\<rparr>,
              Assertions = Some []\<rparr>"
  let ?r1 = "\<lparr>StatusCode = 200, Header = [], body = JNull\<rparr>"
  let ?r3 = "\<lparr>StatusCode = 201, Header = [], body = JNull\<rparr>"
  let ?c1 = "(\<lparr>ID = ''1'', TestSpec_decoded = Inr ?s1\<rparr>, ?r1)"
  let ?c2 = "(\<lparr>ID = ''2'', TestSpec_decoded = Inl ''unexpected end of JSON input''\<rparr>, ?r1)"
  let ?c3 = "(\<lparr>ID = ''3'', TestSpec_decoded = Inr ?s3\<rparr>, ?r3)"
  obtain x1 where x1: "ExecuteTest rt ?s1 ?r1 = Inr x1" "Status x1 = ''PASSED''"
    using ExecuteTest_no_assertions_Status [of ?r1 ?s1 rt] by auto
  obtain x3 where x3: "ExecuteTest rt ?s3 ?r3 = Inr x3" "Status x3 = ''PASSED''"
    using ExecuteTest_no_assertions_Status [of ?r3 ?s3 rt] by auto
  have np: "\<not> test_panics rt ?c1" "\<not> test_panics rt ?c2" "\<not> test_panics rt ?c3"
    by (simp_all add: test_panics_def x1 x3)
  have ps: "test_passes rt ?c1" "\<not> test_passes rt ?c2" "test_passes rt ?c3"
    by (simp_all add: test_passes_def x1 x3)
  have fs: "\<not> test_fails rt ?c1" "test_fails rt ?c2" "\<not> test_fails rt ?c3"
    by (simp_all add: test_fails_def x1 x3)
  have ne: "[?c1, ?c2, ?c3] \<noteq> []" by simp
  have all: "list_all (\<lambda>c. \<not> test_panics rt c) [?c1, ?c2, ?c3]"
    using np by simp
  have "run_Status (run (StartTestRun rt [?c1, ?c2, ?c3])) = ''failed'' \<and>
        TotalTests (run (StartTestRun rt [?c1, ?c2, ?c3])) = 3 \<and>
        PassedTests (run (StartTestRun rt [?c1, ?c2, ?c3])) = 2 \<and>
        FailedTests (run (StartTestRun rt [?c1, ?c2, ?c3])) = 1"
    using C8_run_counts_exact [OF ne all] ps fs by simp
  then show "run (StartTestRun rt [?c1, ?c2, ?c3]) =
      \<lparr>run_Status = ''failed'', TotalTests = 3, PassedTests = 2, FailedTests = 1\<rparr>"
    by (cases "run (StartTestRun rt [?c1, ?c2, ?c3])") simp
qed

section \<open>Properties of the command parser\<close>






























text \<open>The parser on a quote character alone: \<^verbatim>\<open>stripQuotes\<close> slices \<^verbatim>\<open>s[1:0]\<close>.\<close>

lemma ParseCurlCommand_lone_quote_panics:
  "ParseCurlCommand url_parse [CHR 0x27] = Panics SliceBoundsPanic"
  by code_simp




end
